theory Spec2Isabelle
  imports Complex_Main "HOL-Library.Sublist"
begin

section \<open>Exceptions\<close>

text \<open>
  \<open>PVLiveException\<close> is the client's own exception (with the message given to its
  constructor); \<open>RequestFailure\<close> is any exception of the HTTP library other than its
  \<^verbatim>\<open>HTTPError\<close> (a connection error, a timeout), under the name of its class; the others are
  Python's built-in ones.
\<close>

datatype exn =
    PVLiveException string
  | RequestFailure string
  | AttributeError
  | TypeError
  | KeyError
  | IndexError
  | ValueError
  | OverflowError
  | UnboundLocalError

section \<open>Timestamps\<close>

text \<open>
  The client works on Python \<^verbatim>\<open>datetime\<close> values. A datetime is modelled by its wall-clock
  reading (year to microsecond, counted in microseconds since 0001-01-01T00:00:00), its
  \<^verbatim>\<open>fold\<close> (0 or 1) and its \<^verbatim>\<open>tzinfo\<close>: \<open>None\<close> for a naive value, or a time-zone object.

  A time-zone object has an identity (Python compares time zones with \<^verbatim>\<open>is\<close>) and a
  \<^verbatim>\<open>utcoffset\<close> method, which is given the datetime (its wall clock and fold) and answers an
  offset in microseconds or \<^verbatim>\<open>None\<close>. A zone with daylight saving time answers different
  offsets for different wall clocks.

  A \<^verbatim>\<open>timedelta\<close> is its length in microseconds.
\<close>

record tz =
  tz_ident :: nat
  tz_utcoffset :: "int \<Rightarrow> nat \<Rightarrow> int option"

record datetime =
  wall :: int
  fold :: nat
  tzinfo :: "tz option"

type_synonym timedelta = int

definition timedelta :: "int \<Rightarrow> int \<Rightarrow> int \<Rightarrow> timedelta" where
  \<comment> \<open>\<^verbatim>\<open>timedelta(days=d, minutes=m, seconds=s)\<close>\<close>
  "timedelta d m s = d * 86400000000 + m * 60000000 + s * 1000000"

definition microsecond :: "datetime \<Rightarrow> int" where
  "microsecond dt = wall dt mod 1000000"

definition second :: "datetime \<Rightarrow> int" where
  "second dt = (wall dt div 1000000) mod 60"

definition minute :: "datetime \<Rightarrow> int" where
  "minute dt = (wall dt div 60000000) mod 60"

definition hour :: "datetime \<Rightarrow> int" where
  "hour dt = (wall dt div 3600000000) mod 24"

text \<open>
  \<^verbatim>\<open>datetime + timedelta\<close> adds to the wall clock, keeps the \<^verbatim>\<open>tzinfo\<close> and gives a value with
  fold 0; a result before 0001-01-01 or after 9999-12-31 (day number 3652059) raises
  \<^verbatim>\<open>OverflowError\<close>. \<^verbatim>\<open>datetime - timedelta\<close> is \<^verbatim>\<open>datetime + (-timedelta)\<close>.
\<close>

definition MAXORDINAL :: int where
  "MAXORDINAL = 3652059"

definition dt_plus :: "datetime \<Rightarrow> timedelta \<Rightarrow> exn + datetime" where
  "dt_plus dt td =
     (if 0 \<le> wall dt + td \<and> wall dt + td < MAXORDINAL * 86400000000
      then Inr \<lparr>wall = wall dt + td, fold = 0, tzinfo = tzinfo dt\<rparr>
      else Inl OverflowError)"

definition dt_minus :: "datetime \<Rightarrow> timedelta \<Rightarrow> exn + datetime" where
  "dt_minus dt td = dt_plus dt (- td)"

text \<open>
  \<^verbatim>\<open>_nearest_hh\<close> (an Isabelle name cannot start with an underscore):
  \<^verbatim>\<open>
  if not(dt.minute % 30 == 0 and dt.second == 0 and dt.microsecond == 0):
      dt = dt - timedelta(minutes=dt.minute%30, seconds=dt.second) + timedelta(minutes=30)
  return dt
  \<close>
\<close>

definition nearest_hh :: "datetime \<Rightarrow> exn + datetime" where
  "nearest_hh dt =
     (if \<not> (minute dt mod 30 = 0 \<and> second dt = 0 \<and> microsecond dt = 0)
      then (case dt_minus dt (timedelta 0 (minute dt mod 30) (second dt)) of
              Inl e \<Rightarrow> Inl e
            | Inr d \<Rightarrow> dt_plus d (timedelta 0 30 0))
      else Inr dt)"

text \<open>A half-hour boundary: minute 0 or 30, zero seconds, zero microseconds.\<close>

definition on_half_hour :: "datetime \<Rightarrow> bool" where
  "on_half_hour dt \<longleftrightarrow> (minute dt = 0 \<or> minute dt = 30) \<and> second dt = 0 \<and> microsecond dt = 0"

text \<open>
  \<^verbatim>\<open>dt.utcoffset()\<close> asks the time zone; an offset that is not strictly between minus and plus
  24 hours raises \<^verbatim>\<open>ValueError\<close>.
\<close>

definition utcoffset_of :: "datetime \<Rightarrow> exn + int option" where
  "utcoffset_of dt =
     (case tzinfo dt of
        None \<Rightarrow> Inr None
      | Some z \<Rightarrow>
          (case tz_utcoffset z (wall dt) (fold dt) of
             None \<Rightarrow> Inr None
           | Some off \<Rightarrow> if - 86400000000 < off \<and> off < 86400000000 then Inr (Some off)
                         else Inl ValueError))"

text \<open>
  \<^verbatim>\<open>a < b\<close> on datetimes. When both have the same \<^verbatim>\<open>tzinfo\<close> object (or both have none),
  the wall clocks are compared and the fold is ignored. Otherwise both offsets are asked for:
  equal offsets compare the wall clocks again, a missing offset on one side is a
  \<^verbatim>\<open>TypeError\<close>, and two different offsets compare the instants in UTC.
  \<^verbatim>\<open>min(a, b)\<close> is \<open>b\<close> when \<open>b < a\<close> and \<open>a\<close> otherwise.
\<close>

definition same_tz :: "tz option \<Rightarrow> tz option \<Rightarrow> bool" where
  \<comment> \<open>\<^verbatim>\<open>mytz is ottz\<close>\<close>
  "same_tz a b =
     (case a of
        None \<Rightarrow> (case b of None \<Rightarrow> True | Some y \<Rightarrow> False)
      | Some x \<Rightarrow> (case b of None \<Rightarrow> False | Some y \<Rightarrow> tz_ident x = tz_ident y))"

definition dt_lt :: "datetime \<Rightarrow> datetime \<Rightarrow> exn + bool" where
  "dt_lt a b =
     (if same_tz (tzinfo a) (tzinfo b) then Inr (wall a < wall b)
      else
        (case utcoffset_of a of
           Inl e \<Rightarrow> Inl e
         | Inr myoff \<Rightarrow>
             (case utcoffset_of b of
                Inl e \<Rightarrow> Inl e
              | Inr otoff \<Rightarrow>
                  if myoff = otoff then Inr (wall a < wall b)
                  else
                    (case myoff of
                       None \<Rightarrow> Inl TypeError
                     | Some m \<Rightarrow>
                         (case otoff of
                            None \<Rightarrow> Inl TypeError
                          | Some t \<Rightarrow> Inr (wall a - m < wall b - t))))))"

definition dt_min :: "datetime \<Rightarrow> datetime \<Rightarrow> exn + datetime" where
  "dt_min a b = (case dt_lt b a of Inl e \<Rightarrow> Inl e | Inr lt \<Rightarrow> Inr (if lt then b else a))"

text \<open>
  Time zones for concrete runs: \<^verbatim>\<open>pytz.UTC\<close> (one object, identity 0) and a zone with a fixed
  offset in minutes.
\<close>

definition utc :: tz where
  "utc = \<lparr>tz_ident = 0, tz_utcoffset = (\<lambda>w f. Some 0)\<rparr>"



subsection \<open>The calendar, as far as timestamps are printed\<close>

text \<open>
  Python's proleptic Gregorian calendar (the library's \<^verbatim>\<open>_ymd2ord\<close> and \<^verbatim>\<open>_ord2ymd\<close>):
  day 1 is 0001-01-01.
\<close>

definition is_leap :: "int \<Rightarrow> bool" where
  "is_leap y \<longleftrightarrow> y mod 4 = 0 \<and> (y mod 100 \<noteq> 0 \<or> y mod 400 = 0)"

definition days_before_year :: "int \<Rightarrow> int" where
  "days_before_year y = (y - 1) * 365 + (y - 1) div 4 - (y - 1) div 100 + (y - 1) div 400"

definition DAYS_IN_MONTH :: "int list" where
  "DAYS_IN_MONTH = [-1, 31, 28, 31, 30, 31, 30, 31, 31, 30, 31, 30, 31]"

definition DAYS_BEFORE_MONTH :: "int list" where
  "DAYS_BEFORE_MONTH = [-1, 0, 31, 59, 90, 120, 151, 181, 212, 243, 273, 304, 334]"

definition days_before_month :: "int \<Rightarrow> int \<Rightarrow> int" where
  "days_before_month y m = DAYS_BEFORE_MONTH ! nat m + (if m > 2 \<and> is_leap y then 1 else 0)"

definition ymd2ord :: "int \<Rightarrow> int \<Rightarrow> int \<Rightarrow> int" where
  "ymd2ord y m d = days_before_year y + days_before_month y m + d"

definition ord2ymd :: "int \<Rightarrow> int \<times> int \<times> int" where
  "ord2ymd ordinal =
     (let n = ordinal - 1;
          n400 = n div 146097; n = n mod 146097;
          n100 = n div 36524; n = n mod 36524;
          n4 = n div 1461; n = n mod 1461;
          n1 = n div 365; n = n mod 365;
          year = n400 * 400 + 1 + n100 * 100 + n4 * 4 + n1
      in if n1 = 4 \<or> n100 = 4 then (year - 1, 12, 31)
         else
           let leapyear = (n1 = 3 \<and> (n4 \<noteq> 24 \<or> n100 = 3));
               month = (n + 50) div 32;
               preceding = DAYS_BEFORE_MONTH ! nat month + (if month > 2 \<and> leapyear then 1 else 0)
           in if preceding > n
              then (year, month - 1,
                    n - (preceding - (DAYS_IN_MONTH ! nat (month - 1)
                                      + (if month - 1 = 2 \<and> leapyear then 1 else 0))) + 1)
              else (year, month, n - preceding + 1))"

text \<open>\<^verbatim>\<open>datetime(y, m, d, hh, mm, ss, us, tzinfo=tz)\<close>, for writing concrete timestamps.\<close>

definition mk_datetime ::
  "int \<Rightarrow> int \<Rightarrow> int \<Rightarrow> int \<Rightarrow> int \<Rightarrow> int \<Rightarrow> int \<Rightarrow> tz option \<Rightarrow> datetime" where
  "mk_datetime y m d hh mm ss us z =
     \<lparr>wall = (ymd2ord y m d - 1) * 86400000000 + hh * 3600000000 + mm * 60000000
               + ss * 1000000 + us,
      fold = 0,
      tzinfo = z\<rparr>"

subsection \<open>Printing\<close>

fun digits :: "nat \<Rightarrow> string" where
  "digits n = (if n < 10 then [''0123456789'' ! n]
               else digits (n div 10) @ [''0123456789'' ! (n mod 10)])"

declare digits.simps [simp del]

definition zfill :: "nat \<Rightarrow> string \<Rightarrow> string" where
  "zfill w s = replicate (w - length s) CHR ''0'' @ s"

definition fmt_d :: "nat \<Rightarrow> int \<Rightarrow> string" where
  \<comment> \<open>Python's \<^verbatim>\<open>"%0wd" % n\<close>\<close>
  "fmt_d w n = (if n < 0 then CHR ''-'' # zfill (w - 1) (digits (nat (- n)))
                else zfill w (digits (nat n)))"

text \<open>
  The library's \<^verbatim>\<open>_format_offset\<close>: sign, hours and minutes, then seconds and microseconds
  when there are any.
\<close>

definition format_offset :: "int option \<Rightarrow> string" where
  "format_offset off =
     (case off of
        None \<Rightarrow> []
      | Some v \<Rightarrow>
          (let hh = \<bar>v\<bar> div 3600000000;
               mm = (\<bar>v\<bar> mod 3600000000) div 60000000;
               ss = (\<bar>v\<bar> mod 3600000000) mod 60000000
           in (if v < 0 then ''-'' else ''+'') @ fmt_d 2 hh @ '':'' @ fmt_d 2 mm
              @ (if ss \<noteq> 0
                 then '':'' @ fmt_d 2 (ss div 1000000)
                      @ (if ss mod 1000000 \<noteq> 0 then ''.'' @ fmt_d 6 (ss mod 1000000) else [])
                 else [])))"

definition isoformat_date :: "int \<Rightarrow> string" where
  "isoformat_date ordinal =
     (case ord2ymd ordinal of (y, m, d) \<Rightarrow> fmt_d 4 y @ ''-'' @ fmt_d 2 m @ ''-'' @ fmt_d 2 d)"

definition isoformat_naive :: "char \<Rightarrow> datetime \<Rightarrow> string" where
  \<comment> \<open>date, separator and time of day, without the offset\<close>
  "isoformat_naive sep dt =
     isoformat_date (wall dt div 86400000000 + 1) @ [sep]
     @ fmt_d 2 (hour dt) @ '':'' @ fmt_d 2 (minute dt) @ '':'' @ fmt_d 2 (second dt)
     @ (if microsecond dt \<noteq> 0 then ''.'' @ fmt_d 6 (microsecond dt) else [])"

definition isoformat_sep :: "char \<Rightarrow> datetime \<Rightarrow> exn + string" where
  "isoformat_sep sep dt =
     (case utcoffset_of dt of
        Inl e \<Rightarrow> Inl e
      | Inr off \<Rightarrow> Inr (isoformat_naive sep dt @ format_offset off))"

definition isoformat :: "datetime \<Rightarrow> exn + string" where
  "isoformat dt = isoformat_sep CHR ''T'' dt"

text \<open>
  \<^verbatim>\<open>str.replace(old, new)\<close>: every occurrence of \<open>old\<close>, left to right, without overlap.
  The source calls it with \<open>old = '+00:00'\<close> only; an empty \<open>old\<close> is left alone here.
\<close>

fun replace :: "string \<Rightarrow> string \<Rightarrow> string \<Rightarrow> string" where
  "replace old new [] = []"
| "replace old new (c # cs) =
     (if old \<noteq> [] \<and> prefix old (c # cs)
      then new @ replace old new (drop (length old - 1) cs)
      else c # replace old new cs)"

section \<open>Values and the outside world\<close>

text \<open>
  The arguments of the public operations are dynamically typed: the operations test
  \<^verbatim>\<open>isinstance\<close> themselves. The shapes a caller passes are modelled by \<open>pyval\<close>; a date is its
  ordinal day number.
\<close>

datatype pyval = PNone | PInt int | PStr string | PDatetime datetime | PDate int

text \<open>
  The service answers with a JSON document holding a \<^verbatim>\<open>data\<close> array of rows and a \<^verbatim>\<open>meta\<close> array
  of column names. A cell of a row is null, a number or a string. Numbers are modelled as
  reals: the rounding of floating-point arithmetic is not represented. Any other JSON value
  is \<open>Other_json\<close>.
\<close>

datatype cell = Null | Num real | Str string

type_synonym row = "cell list"

datatype json = Doc "row list" "string list" | Other_json

text \<open>
  What \<^verbatim>\<open>requests.get(url)\<close> gives: a page with a status code and a body, or an exception of
  the transport. The world records what the client did (requests and sleeps, in order) and
  counts the requests; the service answers the \<open>n\<close>-th request for a URL by \<open>http_get\<close>, and
  \<open>loads\<close> is \<^verbatim>\<open>json.loads\<close>, with \<open>None\<close> for a body that does not parse.
\<close>

datatype http_result = Page nat string | Fails string

datatype event = Get string | Sleep int

record world =
  clock :: nat
  trace :: "event list"

record service =
  http_get :: "nat \<Rightarrow> string \<Rightarrow> http_result"
  loads :: "string \<Rightarrow> json option"

datatype result = Tuple row | Rows "row list" | Frame "string list" "row list"

section \<open>The client\<close>

text \<open>The constants set by \<^verbatim>\<open>__init__\<close>; the retry count is passed to each operation.\<close>

definition base_url :: string where
  "base_url = ''https://api0.solar.sheffield.ac.uk/pvlive/v2/pes''"

definition max_range_national :: timedelta where
  "max_range_national = timedelta 365 0 0"

definition max_range_regional :: timedelta where
  "max_range_regional = timedelta 30 0 0"

definition communication_error :: exn where
  "communication_error = PVLiveException ''Error communicating with the PV_Live API.''"

subsection \<open>Fetching a URL\<close>

text \<open>
  \<^verbatim>\<open>raise_for_status\<close> raises \<^verbatim>\<open>HTTPError\<close> for the status codes 400 to 599.
\<close>

definition raise_for_status :: "nat \<Rightarrow> bool" where
  "raise_for_status status \<longleftrightarrow> 400 \<le> status \<and> status < 600"

text \<open>
  The loop of \<^verbatim>\<open>_fetch_url\<close>:
  \<^verbatim>\<open>
  while not success and try_counter < self.retries + 1:
      try_counter += 1
      try:
          page = requests.get(url)
          page.raise_for_status()
          success = True
      except requests.exceptions.HTTPError:
          sleep(delay)
          delay *= 2
          continue
      except:
          raise
  \<close>
  It ends with \<open>Inr (Some page)\<close> on success, with \<open>Inr None\<close> when the tries are used up, and
  with \<open>Inl\<close> when an exception leaves it.
\<close>

function fetch_loop ::
  "service \<Rightarrow> int \<Rightarrow> string \<Rightarrow> int \<Rightarrow> int \<Rightarrow> world \<Rightarrow> (exn + (nat \<times> string) option) \<times> world" where
  "fetch_loop srv retries url try_counter delay w =
     (if try_counter < retries + 1 then
        (let w1 = w\<lparr>clock := clock w + 1, trace := trace w @ [Get url]\<rparr>
         in case http_get srv (clock w) url of
              Fails e \<Rightarrow> (Inl (RequestFailure e), w1)
            | Page status text \<Rightarrow>
                if raise_for_status status
                then fetch_loop srv retries url (try_counter + 1) (delay * 2)
                       (w1\<lparr>trace := trace w1 @ [Sleep delay]\<rparr>)
                else (Inr (Some (status, text)), w1))
      else (Inr None, w))"
  by pat_completeness auto
termination
  by (relation "measure (\<lambda>(srv, retries, url, try_counter, delay, w). nat (retries + 1 - try_counter))")
     auto

declare fetch_loop.simps [simp del]

text \<open>
  \<^verbatim>\<open>_fetch_url\<close>, after the loop:
  \<^verbatim>\<open>
  if not success:
      raise PVLiveException("Error communicating with the PV_Live API.")
  try:
      return json.loads(page.text)
  except:
      raise PVLiveException("Error communicating with the PV_Live API.")
  \<close>
\<close>

definition fetch_url :: "service \<Rightarrow> int \<Rightarrow> string \<Rightarrow> world \<Rightarrow> (exn + json) \<times> world" where
  "fetch_url srv retries url w =
     (case fetch_loop srv retries url 0 1 w of
        (Inl e, w') \<Rightarrow> (Inl e, w')
      | (Inr None, w') \<Rightarrow> (Inl communication_error, w')
      | (Inr (Some (status, text)), w') \<Rightarrow>
          (case loads srv text of
             None \<Rightarrow> (Inl communication_error, w')
           | Some j \<Rightarrow> (Inr j, w')))"

subsection \<open>Building a request\<close>

definition truthy :: "pyval \<Rightarrow> bool" where
  "truthy v = (case v of PNone \<Rightarrow> False | PInt n \<Rightarrow> n \<noteq> 0 | PStr s \<Rightarrow> s \<noteq> []
               | PDatetime d \<Rightarrow> True | PDate d \<Rightarrow> True)"

definition py_str :: "pyval \<Rightarrow> exn + string" where
  \<comment> \<open>\<^verbatim>\<open>str(v)\<close>, which is what \<^verbatim>\<open>"{}".format(v)\<close> prints\<close>
  "py_str v = (case v of PNone \<Rightarrow> Inr ''None'' | PInt n \<Rightarrow> Inr (fmt_d 1 n) | PStr s \<Rightarrow> Inr s
               | PDatetime d \<Rightarrow> isoformat_sep CHR '' '' d | PDate d \<Rightarrow> Inr (isoformat_date d))"

definition dict_set :: "(string \<times> pyval) list \<Rightarrow> string \<Rightarrow> pyval \<Rightarrow> (string \<times> pyval) list" where
  \<comment> \<open>\<^verbatim>\<open>params[k] = v\<close> on a dictionary kept in insertion order\<close>
  "dict_set d k v =
     (if k \<in> fst ` set d then map (\<lambda>(k', v'). if k' = k then (k', v) else (k', v')) d
      else d @ [(k, v)])"

text \<open>
  \<^verbatim>\<open>
  params = {}
  if extra_fields:
      params["extra_fields"] = extra_fields
  if start is not None:
      params["start"] = start.isoformat().replace('+00:00', 'Z')
  end = start if (start is not None and end is None) else end
  if end is not None:
      params["end"] = end.isoformat().replace('+00:00', 'Z')
  return params
  \<close>
\<close>

definition isoformat_z :: "datetime \<Rightarrow> exn + pyval" where
  \<comment> \<open>\<^verbatim>\<open>dt.isoformat().replace('+00:00', 'Z')\<close>\<close>
  "isoformat_z dt =
     (case isoformat dt of Inl e \<Rightarrow> Inl e | Inr s \<Rightarrow> Inr (PStr (replace ''+00:00'' ''Z'' s)))"

definition compile_params ::
  "pyval \<Rightarrow> datetime option \<Rightarrow> datetime option \<Rightarrow> exn + (string \<times> pyval) list" where
  "compile_params extra_fields start end' =
     (let params = [];
          params = (if truthy extra_fields then dict_set params ''extra_fields'' extra_fields
                    else params)
      in case (case start of
                 None \<Rightarrow> Inr params
               | Some s \<Rightarrow>
                   (case isoformat_z s of
                      Inl e \<Rightarrow> Inl e
                    | Inr v \<Rightarrow> Inr (dict_set params ''start'' v))) of
           Inl e \<Rightarrow> Inl e
         | Inr params \<Rightarrow>
             (let end' = (if \<not> Option.is_none start \<and> Option.is_none end' then start else end')
              in case end' of
                   None \<Rightarrow> Inr params
                 | Some e \<Rightarrow>
                     (case isoformat_z e of
                        Inl ex \<Rightarrow> Inl ex
                      | Inr v \<Rightarrow> Inr (dict_set params ''end'' v))))"

fun join :: "string \<Rightarrow> string list \<Rightarrow> string" where
  "join sep [] = []"
| "join sep [x] = x"
| "join sep (x # y # ys) = x @ sep @ join sep (y # ys)"

text \<open>
  \<^verbatim>\<open>
  base_url = "{}/{}".format(self.base_url, pes_id)
  url = base_url + "?" + "&".join(["{}={}".format(k, params[k]) for k in params])
  \<close>
\<close>

fun format_items :: "(string \<times> pyval) list \<Rightarrow> exn + string list" where
  "format_items [] = Inr []"
| "format_items ((k, v) # ps) =
     (case py_str v of
        Inl e \<Rightarrow> Inl e
      | Inr s \<Rightarrow>
          (case format_items ps of Inl e \<Rightarrow> Inl e | Inr items \<Rightarrow> Inr ((k @ ''='' @ s) # items)))"

definition build_url :: "pyval \<Rightarrow> (string \<times> pyval) list \<Rightarrow> exn + string" where
  "build_url pes_id params =
     (case py_str pes_id of
        Inl e \<Rightarrow> Inl e
      | Inr p \<Rightarrow>
          (case format_items params of
             Inl e \<Rightarrow> Inl e
           | Inr items \<Rightarrow> Inr ((base_url @ ''/'' @ p) @ ''?'' @ join ''&'' items)))"

definition query_api ::
  "service \<Rightarrow> int \<Rightarrow> pyval \<Rightarrow> (string \<times> pyval) list \<Rightarrow> world \<Rightarrow> (exn + json) \<times> world" where
  "query_api srv retries pes_id params w =
     (case build_url pes_id params of
        Inl e \<Rightarrow> (Inl e, w)
      | Inr url \<Rightarrow> fetch_url srv retries url w)"

text \<open>
  The two statements \<^verbatim>\<open>params = self._compile_params(...)\<close> and
  \<^verbatim>\<open>response = self._query_api(pes_id, params)\<close>: an exception of the first leaves before the
  second.
\<close>

definition request ::
  "service \<Rightarrow> int \<Rightarrow> pyval \<Rightarrow> exn + (string \<times> pyval) list \<Rightarrow> world \<Rightarrow> (exn + json) \<times> world" where
  "request srv retries pes_id ps w =
     (case ps of Inl e \<Rightarrow> (Inl e, w) | Inr params \<Rightarrow> query_api srv retries pes_id params w)"

text \<open>\<^verbatim>\<open>response["data"]\<close> and \<^verbatim>\<open>response['meta']\<close>.\<close>

fun get_data :: "json \<Rightarrow> exn + row list" where
  "get_data (Doc d m) = Inr d"
| "get_data Other_json = Inl KeyError"

fun get_meta :: "json \<Rightarrow> exn + string list" where
  "get_meta (Doc d m) = Inr m"
| "get_meta Other_json = Inl KeyError"

subsection \<open>The public operations\<close>

text \<open>
  Every operation takes the service, the retry count, its Python arguments and the world,
  and gives its result or the exception that left it, with the world it leaves behind.
  \<^verbatim>\<open>PVLiveException(...)\<close> without \<^verbatim>\<open>raise\<close> builds an exception and drops it: such a statement
  has no effect and no counterpart below.
\<close>

definition null_row :: row where
  "null_row = [Null, Null, Null]"

text \<open>
  The end of \<^verbatim>\<open>latest\<close>, \<^verbatim>\<open>at_time\<close> and \<^verbatim>\<open>day_peak\<close>: the row at \<open>i\<close> as a tuple or as a
  one-row data frame.
  \<^verbatim>\<open>
  if data_frame:
      return self.convert_tuple_to_df(response["data"][i], response['meta'])
  return tuple(response["data"][i])
  \<close>
\<close>

definition return_row :: "json \<Rightarrow> row list \<Rightarrow> nat \<Rightarrow> bool \<Rightarrow> exn + result" where
  "return_row response d i data_frame =
     (if data_frame
      then (case get_meta response of Inl e \<Rightarrow> Inl e | Inr m \<Rightarrow> Inr (Frame m [d ! i]))
      else Inr (Tuple (d ! i)))"

text \<open>
  \<^verbatim>\<open>
  if not isinstance(pes_id, int) or pes_id not in range(0, 328):
      raise PVLiveException("The pes_id must be an integer between 0 and 327 (inclusive).")
  if not isinstance(extra_fields, str):
      raise PVLiveException("The extra_fields must be a comma-separated string.")
  params = self._compile_params(extra_fields)
  response = self._query_api(pes_id, params)
  if response["data"]:
      ...
  return (None, None, None)
  \<close>
\<close>

definition valid_pes_id :: "pyval \<Rightarrow> bool" where
  "valid_pes_id v = (case v of PInt n \<Rightarrow> 0 \<le> n \<and> n < 328 | _ \<Rightarrow> False)"

definition is_str :: "pyval \<Rightarrow> bool" where
  "is_str v = (case v of PStr s \<Rightarrow> True | _ \<Rightarrow> False)"

definition first_row :: "bool \<Rightarrow> (exn + json) \<times> world \<Rightarrow> (exn + result) \<times> world" where
  "first_row data_frame q =
     (case q of
        (Inl e, w') \<Rightarrow> (Inl e, w')
      | (Inr response, w') \<Rightarrow>
          (case get_data response of
             Inl e \<Rightarrow> (Inl e, w')
           | Inr d \<Rightarrow> if d \<noteq> [] then (return_row response d 0 data_frame, w')
                      else (Inr (Tuple null_row), w')))"

definition latest ::
  "service \<Rightarrow> int \<Rightarrow> pyval \<Rightarrow> bool \<Rightarrow> pyval \<Rightarrow> world \<Rightarrow> (exn + result) \<times> world" where
  "latest srv retries pes_id data_frame extra_fields w =
     (if \<not> valid_pes_id pes_id
      then (Inl (PVLiveException
                   ''The pes_id must be an integer between 0 and 327 (inclusive).''), w)
      else if \<not> is_str extra_fields
      then (Inl (PVLiveException ''The extra_fields must be a comma-separated string.''), w)
      else first_row data_frame
             (request srv retries pes_id (compile_params extra_fields None None) w))"

text \<open>
  \<^verbatim>\<open>
  if not isinstance(dt, datetime) or dt.tzinfo is None:
      PVLiveException("The dt must be a timezone-aware Python datetime object.")
  dt = self._nearest_hh(dt)
  params = self._compile_params(extra_fields, dt)
  response = self._query_api(pes_id, params)
  ...
  \<close>
  A \<open>dt\<close> that is no datetime has no \<^verbatim>\<open>minute\<close>: \<^verbatim>\<open>_nearest_hh\<close> raises \<^verbatim>\<open>AttributeError\<close>.
\<close>

definition at_time ::
  "service \<Rightarrow> int \<Rightarrow> pyval \<Rightarrow> pyval \<Rightarrow> bool \<Rightarrow> pyval \<Rightarrow> world \<Rightarrow> (exn + result) \<times> world" where
  "at_time srv retries dt pes_id data_frame extra_fields w =
     (case dt of
        PDatetime d \<Rightarrow>
          (case nearest_hh d of
             Inl e \<Rightarrow> (Inl e, w)
           | Inr d' \<Rightarrow>
               first_row data_frame
                 (request srv retries pes_id (compile_params extra_fields (Some d') None) w))
      | _ \<Rightarrow> (Inl AttributeError, w))"

definition max_range :: "pyval \<Rightarrow> timedelta" where
  \<comment> \<open>\<^verbatim>\<open>self.max_range["national"] if pes_id == 0 else self.max_range["regional"]\<close>\<close>
  "max_range pes_id =
     (case pes_id of
        PInt n \<Rightarrow> if n = 0 then max_range_national else max_range_regional
      | _ \<Rightarrow> max_range_regional)"

text \<open>
  The loop of \<^verbatim>\<open>between\<close>, with the variables it changes: \<open>request_start\<close>, \<open>data\<close>, and
  \<open>response\<close> (\<open>None\<close> while it is unbound).
  \<^verbatim>\<open>
  while request_start < end:
      request_end = min(end, request_start + max_range)
      params = self._compile_params(extra_fields, request_start, request_end)
      response = self._query_api(pes_id, params)
      data += response["data"]
      request_start += max_range + timedelta(minutes=30)
  \<close>
\<close>

function between_loop ::
  "service \<Rightarrow> int \<Rightarrow> pyval \<Rightarrow> pyval \<Rightarrow> datetime \<Rightarrow> datetime \<Rightarrow> row list \<Rightarrow> json option \<Rightarrow> world
     \<Rightarrow> (exn + row list \<times> json option) \<times> world" where
  "between_loop srv retries pes_id extra_fields end' request_start data response w =
     (case dt_lt request_start end' of
        Inl e \<Rightarrow> (Inl e, w)
      | Inr lt \<Rightarrow>
          if \<not> lt then (Inr (data, response), w)
          else
            (case dt_plus request_start (max_range pes_id) of
               Inl e \<Rightarrow> (Inl e, w)
             | Inr limit \<Rightarrow>
                 (case dt_min end' limit of
                    Inl e \<Rightarrow> (Inl e, w)
                  | Inr request_end \<Rightarrow>
                      (case request srv retries pes_id
                              (compile_params extra_fields (Some request_start) (Some request_end))
                              w of
                         (Inl e, w1) \<Rightarrow> (Inl e, w1)
                       | (Inr r, w1) \<Rightarrow>
                           (case get_data r of
                              Inl e \<Rightarrow> (Inl e, w1)
                            | Inr rows \<Rightarrow>
                                (case dt_plus request_start
                                        (max_range pes_id + timedelta 0 30 0) of
                                   Inl e \<Rightarrow> (Inl e, w1)
                                 | Inr request_start' \<Rightarrow>
                                     between_loop srv retries pes_id extra_fields end'
                                       request_start' (data @ rows) (Some r) w1))))))"
  by pat_completeness auto
termination
proof (relation "measure (\<lambda>(srv, retries, pes_id, extra_fields, end', request_start, data, response, w).
                   nat (MAXORDINAL * 86400000000 - wall request_start))", goal_cases)
  case 1
  show ?case by simp
next
  case (2 srv retries pes_id extra_fields end' request_start)
  have "0 < max_range pes_id + timedelta 0 30 0"
    by (simp add: max_range_def max_range_national_def max_range_regional_def timedelta_def
        split: pyval.split)
  with 2 show ?case
    by (auto simp add: dt_plus_def split: if_splits)
qed

declare between_loop.simps [simp del]

text \<open>
  \<^verbatim>\<open>
  type_check = not (isinstance(start, datetime) and isinstance(end, datetime))
  tz_check = start.tzinfo is None or end.tzinfo is None
  if type_check or tz_check:
      PVLiveException("Start and end must be timezone-aware Python datetime objects.")
  start = self._nearest_hh(start)
  end = self._nearest_hh(end)
  data = []
  request_start = start
  max_range = ...
  while ...
  if data_frame:
      columns = response['meta']
      data = pd.DataFrame(data, columns=columns)
  return data
  \<close>
  A \<open>start\<close> or \<open>end\<close> that is no datetime has no \<^verbatim>\<open>tzinfo\<close> or no \<^verbatim>\<open>minute\<close>:
  \<^verbatim>\<open>AttributeError\<close>, before the loop.
\<close>

definition between ::
  "service \<Rightarrow> int \<Rightarrow> pyval \<Rightarrow> pyval \<Rightarrow> pyval \<Rightarrow> bool \<Rightarrow> pyval \<Rightarrow> world \<Rightarrow> (exn + result) \<times> world" where
  "between srv retries start end' pes_id data_frame extra_fields w =
     (case (start, end') of
        (PDatetime s, PDatetime e) \<Rightarrow>
          (case nearest_hh s of
             Inl ex \<Rightarrow> (Inl ex, w)
           | Inr start' \<Rightarrow>
               (case nearest_hh e of
                  Inl ex \<Rightarrow> (Inl ex, w)
                | Inr end'' \<Rightarrow>
                    (case between_loop srv retries pes_id extra_fields end'' start' [] None w of
                       (Inl ex, w') \<Rightarrow> (Inl ex, w')
                     | (Inr (data, response), w') \<Rightarrow>
                         if data_frame
                         then (case response of
                                 None \<Rightarrow> (Inl UnboundLocalError, w')
                               | Some r \<Rightarrow>
                                   (case get_meta r of
                                      Inl ex \<Rightarrow> (Inl ex, w')
                                    | Inr columns \<Rightarrow> (Inr (Frame columns data), w')))
                         else (Inr (Rows data), w'))))
      | _ \<Rightarrow> (Inl AttributeError, w))"

text \<open>
  The day of \<^verbatim>\<open>day_peak\<close> and \<^verbatim>\<open>day_energy\<close>:
  \<^verbatim>\<open>
  start = datetime.combine(d, time(0, 30, tzinfo=pytz.UTC))
  end = start + timedelta(days=1) - timedelta(minutes=30)
  \<close>
  \<^verbatim>\<open>combine\<close> takes the date of a datetime and refuses anything that is no date.
\<close>

definition combine_0030_utc :: "pyval \<Rightarrow> exn + datetime" where
  "combine_0030_utc d =
     (case d of
        PDate n \<Rightarrow>
          Inr \<lparr>wall = (n - 1) * 86400000000 + 30 * 60000000, fold = 0, tzinfo = Some utc\<rparr>
      | PDatetime dt \<Rightarrow>
          Inr \<lparr>wall = (wall dt div 86400000000) * 86400000000 + 30 * 60000000, fold = 0,
               tzinfo = Some utc\<rparr>
      | _ \<Rightarrow> Inl TypeError)"

definition day_end :: "datetime \<Rightarrow> exn + datetime" where
  "day_end start =
     (case dt_plus start (timedelta 1 0 0) of
        Inl e \<Rightarrow> Inl e
      | Inr d \<Rightarrow> dt_minus d (timedelta 0 30 0))"

text \<open>
  \<^verbatim>\<open>[x[2] if x[2] is not None else dflt for x in rows]\<close>: a row with fewer than three cells
  raises \<^verbatim>\<open>IndexError\<close>, and the first one to do so ends the comprehension.
\<close>

definition gen_or :: "cell \<Rightarrow> row \<Rightarrow> exn + cell" where
  "gen_or dflt x =
     (if length x \<le> 2 then Inl IndexError
      else Inr (if x ! 2 \<noteq> Null then x ! 2 else dflt))"

fun gens_or :: "cell \<Rightarrow> row list \<Rightarrow> exn + cell list" where
  "gens_or dflt [] = Inr []"
| "gens_or dflt (x # xs) =
     (case gen_or dflt x of
        Inl e \<Rightarrow> Inl e
      | Inr g \<Rightarrow> (case gens_or dflt xs of Inl e \<Rightarrow> Inl e | Inr gs \<Rightarrow> Inr (g # gs)))"

text \<open>
  Python's \<open>></\<close> and \<open>+\<close> on cells: numbers with numbers, strings with strings (by their
  characters, in order), and a \<^verbatim>\<open>TypeError\<close> for every other pair.
\<close>

fun str_lt :: "string \<Rightarrow> string \<Rightarrow> bool" where
  "str_lt [] [] = False"
| "str_lt [] (y # ys) = True"
| "str_lt (x # xs) [] = False"
| "str_lt (x # xs) (y # ys) =
     ((of_char x :: nat) < of_char y \<or> (x = y \<and> str_lt xs ys))"

fun py_gt :: "cell \<Rightarrow> cell \<Rightarrow> exn + bool" where
  "py_gt (Num a) (Num b) = Inr (a > b)"
| "py_gt (Str a) (Str b) = Inr (str_lt b a)"
| "py_gt _ _ = Inl TypeError"

fun py_add :: "cell \<Rightarrow> cell \<Rightarrow> exn + cell" where
  "py_add (Num a) (Num b) = Inr (Num (a + b))"
| "py_add (Str a) (Str b) = Inr (Str (a @ b))"
| "py_add _ _ = Inl TypeError"

fun py_mul :: "cell \<Rightarrow> real \<Rightarrow> exn + real" where
  "py_mul (Num a) f = Inr (a * f)"
| "py_mul _ f = Inl TypeError"

text \<open>
  \<^verbatim>\<open>max(range(len(gens)), key=gens.__getitem__)\<close>: \<^verbatim>\<open>max\<close> keeps the first item and its key,
  and replaces them by a later item only when that item's key is greater (\<open>></\<close>) than the
  key kept. \<^verbatim>\<open>max\<close> of an empty range raises \<^verbatim>\<open>ValueError\<close>.
\<close>

fun max_loop :: "cell list \<Rightarrow> nat \<Rightarrow> cell \<Rightarrow> nat list \<Rightarrow> exn + nat" where
  "max_loop gens maxitem maxval [] = Inr maxitem"
| "max_loop gens maxitem maxval (i # rest) =
     (case py_gt (gens ! i) maxval of
        Inl e \<Rightarrow> Inl e
      | Inr gt \<Rightarrow> if gt then max_loop gens i (gens ! i) rest
                  else max_loop gens maxitem maxval rest)"

definition index_max :: "cell list \<Rightarrow> exn + nat" where
  "index_max gens =
     (case [0..<length gens] of
        [] \<Rightarrow> Inl ValueError
      | i # rest \<Rightarrow> max_loop gens i (gens ! i) rest)"

text \<open>\<^verbatim>\<open>sum(gens)\<close>: from 0, adding from the left.\<close>

fun sum_loop :: "cell \<Rightarrow> cell list \<Rightarrow> exn + cell" where
  "sum_loop acc [] = Inr acc"
| "sum_loop acc (g # gs) =
     (case py_add acc g of Inl e \<Rightarrow> Inl e | Inr acc' \<Rightarrow> sum_loop acc' gs)"

text \<open>The float \<^verbatim>\<open>-1e308\<close>, put in the place of a null generation value by \<^verbatim>\<open>day_peak\<close>.\<close>

definition minus_1e308 :: real where
  "minus_1e308 = - (10 ^ 308)"

text \<open>
  \<^verbatim>\<open>
  if not isinstance(d, date):
      PVLiveException("The d must be a Python date object.")
  start = ...; end = ...
  params = self._compile_params(extra_fields, start, end)
  response = self._query_api(pes_id, params)
  if response["data"]:
      gens = [x[2] if x[2] is not None else -1e308 for x in response["data"]]
      index_max = max(range(len(gens)), key=gens.__getitem__)
      if data_frame:
          return self.convert_tuple_to_df(response["data"][index_max], response['meta'])
      return tuple(response["data"][index_max])
  return (None, None, None)
  \<close>
\<close>

definition day_peak ::
  "service \<Rightarrow> int \<Rightarrow> pyval \<Rightarrow> pyval \<Rightarrow> bool \<Rightarrow> pyval \<Rightarrow> world \<Rightarrow> (exn + result) \<times> world" where
  "day_peak srv retries d pes_id data_frame extra_fields w =
     (case combine_0030_utc d of
        Inl e \<Rightarrow> (Inl e, w)
      | Inr start \<Rightarrow>
       (case day_end start of
          Inl e \<Rightarrow> (Inl e, w)
        | Inr end' \<Rightarrow>
          (case request srv retries pes_id
                  (compile_params extra_fields (Some start) (Some end')) w of
             (Inl e, w') \<Rightarrow> (Inl e, w')
           | (Inr response, w') \<Rightarrow>
               (case get_data response of
                  Inl e \<Rightarrow> (Inl e, w')
                | Inr rows \<Rightarrow>
                    if rows \<noteq> [] then
                      (case gens_or (Num minus_1e308) rows of
                         Inl e \<Rightarrow> (Inl e, w')
                       | Inr gens \<Rightarrow>
                           (case index_max gens of
                              Inl e \<Rightarrow> (Inl e, w')
                            | Inr i \<Rightarrow> (return_row response rows i data_frame, w')))
                    else (Inr (Tuple null_row), w')))))"

text \<open>
  \<^verbatim>\<open>
  params = self._compile_params("", start, end)
  response = self._query_api(pes_id, params)
  if response["data"]:
      pv_energy = sum([x[2] if x[2] is not None else 0 for x in response["data"]]) * 0.5
      return pv_energy
  return None
  \<close>
\<close>

definition day_energy ::
  "service \<Rightarrow> int \<Rightarrow> pyval \<Rightarrow> pyval \<Rightarrow> world \<Rightarrow> (exn + real option) \<times> world" where
  "day_energy srv retries d pes_id w =
     (case combine_0030_utc d of
        Inl e \<Rightarrow> (Inl e, w)
      | Inr start \<Rightarrow>
       (case day_end start of
          Inl e \<Rightarrow> (Inl e, w)
        | Inr end' \<Rightarrow>
          (case request srv retries pes_id
                  (compile_params (PStr []) (Some start) (Some end')) w of
             (Inl e, w') \<Rightarrow> (Inl e, w')
           | (Inr response, w') \<Rightarrow>
               (case get_data response of
                  Inl e \<Rightarrow> (Inl e, w')
                | Inr rows \<Rightarrow>
                    if rows \<noteq> [] then
                      (case gens_or (Num 0) rows of
                         Inl e \<Rightarrow> (Inl e, w')
                       | Inr gens \<Rightarrow>
                           (case sum_loop (Num 0) gens of
                              Inl e \<Rightarrow> (Inl e, w')
                            | Inr summed \<Rightarrow>
                                (case py_mul summed 0.5 of
                                   Inl e \<Rightarrow> (Inl e, w')
                                 | Inr pv_energy \<Rightarrow> (Inr (Some pv_energy), w'))))
                    else (Inr None, w')))))"

section \<open>Notions for stating the properties\<close>

text \<open>
  An answer with an HTTP error status: the one case in which \<^verbatim>\<open>_fetch_url\<close> sleeps and tries
  again.
\<close>

definition http_error :: "http_result \<Rightarrow> bool" where
  "http_error r = (case r of Page status text \<Rightarrow> raise_for_status status | Fails e \<Rightarrow> False)"

text \<open>
  What \<open>k\<close> failed attempts leave in the trace: each request followed by its sleep, of 1, 2,
  4, ... time units.
\<close>

definition failed_attempts :: "string \<Rightarrow> nat \<Rightarrow> event list" where
  "failed_attempts url k = concat (map (\<lambda>j. [Get url, Sleep (2 ^ j)]) [0..<k])"

text \<open>The URLs requested, in order.\<close>

fun requests :: "event list \<Rightarrow> string list" where
  "requests [] = []"
| "requests (Get u # tr) = u # requests tr"
| "requests (Sleep d # tr) = requests tr"

text \<open>
  Services and a starting world for concrete runs: one that answers 503 twice and then 200,
  one that always answers 503, and one whose connection fails. Their \<open>loads\<close> reads one body.
\<close>

definition empty_doc_text :: string where
  "empty_doc_text = ''{data: [], meta: []}''"

definition loads_demo :: "string \<Rightarrow> json option" where
  "loads_demo text = (if text = empty_doc_text then Some (Doc [] []) else None)"

definition flaky_service :: service where
  "flaky_service =
     \<lparr>http_get = (\<lambda>n url. if n < 2 then Page 503 ''Service Unavailable''
                            else Page 200 empty_doc_text),
      loads = loads_demo\<rparr>"

definition down_service :: service where
  "down_service = \<lparr>http_get = (\<lambda>n url. Page 503 ''Service Unavailable''), loads = loads_demo\<rparr>"

definition unreachable_service :: service where
  "unreachable_service = \<lparr>http_get = (\<lambda>n url. Fails ''ConnectionError''), loads = loads_demo\<rparr>"

definition world0 :: world where
  "world0 = \<lparr>clock = 0, trace = []\<rparr>"

text \<open>A service that answers every request at once with the same document.\<close>

definition doc_service :: "json \<Rightarrow> service" where
  "doc_service j =
     \<lparr>http_get = (\<lambda>n url. Page 200 ''doc''),
      loads = (\<lambda>text. if text = ''doc'' then Some j else None)\<rparr>"

definition columns3 :: "string list" where
  "columns3 = [''pes_id'', ''datetime_gmt'', ''generation_mw'']"

text \<open>
  The day queried by \<^verbatim>\<open>day_peak\<close> and \<^verbatim>\<open>day_energy\<close> for the date with day number \<open>n\<close>: from
  00:30 on that day to 00:00 on the next one, both in UTC.
\<close>

definition half_past_midnight :: "int \<Rightarrow> datetime" where
  "half_past_midnight n = \<lparr>wall = (n - 1) * 86400000000 + 1800000000, fold = 0, tzinfo = Some utc\<rparr>"

definition midnight_after :: "int \<Rightarrow> datetime" where
  "midnight_after n = \<lparr>wall = n * 86400000000, fold = 0, tzinfo = Some utc\<rparr>"

text \<open>
  The generation value of a row (its third cell) as a number: with null read as 0, for the
  energy, and with null read as \<open>-1e308\<close>, for the peak. A row as the service documents it has
  at least three cells, the third being a number or null.
\<close>

definition generation_or_zero :: "row \<Rightarrow> real" where
  "generation_or_zero x = (case x ! 2 of Num v \<Rightarrow> v | _ \<Rightarrow> 0)"

definition generation_key :: "row \<Rightarrow> real" where
  "generation_key x = (case x ! 2 of Num v \<Rightarrow> v | _ \<Rightarrow> minus_1e308)"

definition generation_row :: "row \<Rightarrow> bool" where
  "generation_row x \<longleftrightarrow> 2 < length x \<and> (case x ! 2 of Null \<Rightarrow> True | Num v \<Rightarrow> True | Str s \<Rightarrow> False)"


section \<open>The time normaliser\<close>

text \<open>
  The wall clock modulo half an hour is what the three fields tested by \<^verbatim>\<open>_nearest_hh\<close> hold.
\<close>

lemma wall_mod_half_hour:
  "wall dt mod 1800000000 = (minute dt mod 30) * 60000000 + second dt * 1000000 + microsecond dt"
proof -
  have a: "wall dt mod 1800000000 = (wall dt div 60000000 mod 30) * 60000000 + wall dt mod 60000000"
    using zmod_zmult2_eq [of 30 "wall dt" 60000000] by simp
  have b: "wall dt mod 60000000 = (wall dt div 1000000 mod 60) * 1000000 + wall dt mod 1000000"
    using zmod_zmult2_eq [of 60 "wall dt" 1000000] by simp
  have c: "wall dt div 60000000 mod 60 mod 30 = wall dt div 60000000 mod 30"
    by (rule mod_mod_cancel) simp
  show ?thesis
    unfolding minute_def second_def microsecond_def
    by (simp only: c a b add.assoc)
qed

lemma field_bounds:
  "0 \<le> minute dt mod 30" "0 \<le> second dt" "0 \<le> microsecond dt"
  "0 \<le> minute dt" "minute dt < 60" "microsecond dt < 1000000"
  by (simp_all add: minute_def second_def microsecond_def)

lemma sum_zero_iff:
  "0 \<le> m \<Longrightarrow> 0 \<le> s \<Longrightarrow> 0 \<le> u \<Longrightarrow>
     (m * 60000000 + s * 1000000 + u = 0) = (m = 0 \<and> s = 0 \<and> u = (0::int))"
  by linarith

lemma boundary_test_iff:
  "(minute dt mod 30 = 0 \<and> second dt = 0 \<and> microsecond dt = 0) \<longleftrightarrow> wall dt mod 1800000000 = 0"
  unfolding wall_mod_half_hour
  by (rule sum_zero_iff [symmetric]) (rule field_bounds)+

lemma minute_mod_30: "0 \<le> x \<Longrightarrow> x < 60 \<Longrightarrow> (x mod 30 = 0) = (x = 0 \<or> x = (30::int))"
  by presburger

lemma on_half_hour_iff: "on_half_hour dt \<longleftrightarrow> wall dt mod 1800000000 = 0"
  unfolding on_half_hour_def boundary_test_iff [symmetric]
  by (simp only: minute_mod_30 [OF field_bounds(4) field_bounds(5)])

lemma nearest_hh_on_boundary: "on_half_hour dt \<Longrightarrow> nearest_hh dt = Inr dt"
  unfolding on_half_hour_iff nearest_hh_def boundary_test_iff by simp

lemma rounding_delta:
  "timedelta 0 (minute dt mod 30) (second dt) = wall dt mod 1800000000 - microsecond dt"
  unfolding wall_mod_half_hour timedelta_def by simp

lemma half_hour_delta: "timedelta 0 30 0 = 1800000000"
  by (simp add: timedelta_def)

text \<open>What a successful call returns.\<close>

lemma nearest_hh_result:
  assumes "nearest_hh dt = Inr r"
  shows "wall r = (if wall dt mod 1800000000 = 0 then wall dt
                   else wall dt - (wall dt mod 1800000000 - microsecond dt) + 1800000000)"
    and "tzinfo r = tzinfo dt"
  using assms
  unfolding nearest_hh_def boundary_test_iff rounding_delta half_hour_delta dt_minus_def dt_plus_def
  by (auto split: if_splits sum.splits)

text \<open>The only exception is the overflow of the year range, and only near its end.\<close>

lemma nearest_hh_succeeds:
  assumes "0 \<le> wall dt" and "wall dt + 1800000000 < MAXORDINAL * 86400000000"
  shows "\<exists>r. nearest_hh dt = Inr r"
proof (cases "wall dt mod 1800000000 = 0")
  case True
  then show ?thesis
    unfolding nearest_hh_def boundary_test_iff by simp
next
  case False
  have b: "0 \<le> microsecond dt" "microsecond dt \<le> wall dt mod 1800000000"
    "wall dt mod 1800000000 \<le> wall dt" "wall dt mod 1800000000 < 1800000000"
    using field_bounds(1,2,3) [of dt] wall_mod_half_hour [of dt] assms(1)
      zmod_le_nonneg_dividend [OF assms(1), of 1800000000]
    by simp_all
  with False assms show ?thesis
    unfolding nearest_hh_def boundary_test_iff rounding_delta half_hour_delta dt_minus_def dt_plus_def
    by simp
qed

lemma nearest_hh_exception: "nearest_hh dt = Inl e \<Longrightarrow> e = OverflowError"
  unfolding nearest_hh_def dt_minus_def dt_plus_def
  by (auto split: if_splits sum.splits)


lemma round_down_plus: "((w::int) - w mod 1800000000 + 1800000000) mod 1800000000 = 0"
  by (simp only: minus_mod_eq_mult_div mod_add_self2 mod_mult_self1_is_0)

lemma next_multiple_least:
  assumes "(b::int) mod 1800000000 = 0" and "w \<le> b" and "w mod 1800000000 \<noteq> 0"
  shows "w - w mod 1800000000 + 1800000000 \<le> b"
proof -
  from assms(1) have "1800000000 dvd b"
    by (simp only: mod_eq_0_iff_dvd)
  then obtain q where b: "b = 1800000000 * q"
    by (rule dvdE)
  have w: "w = 1800000000 * (w div 1800000000) + w mod 1800000000"
    by (simp only: mult_div_mod_eq)
  have pos: "0 < w mod 1800000000"
    using assms(3) pos_mod_sign [of 1800000000 w] by linarith
  have "1800000000 * (w div 1800000000) < 1800000000 * q"
    using w pos assms(2) b by linarith
  then have "w div 1800000000 < q"
    by (simp only: mult_less_cancel_left_pos zero_less_numeral)
  then have "w div 1800000000 + 1 \<le> q"
    by linarith
  then have "1800000000 * (w div 1800000000 + 1) \<le> 1800000000 * q"
    by (rule mult_left_mono) simp
  then show ?thesis
    using w b by (simp only: distrib_left mult_1_right minus_mod_eq_mult_div)
qed

lemma shift_eq:
  "(1800000000::int) * q + r = w \<Longrightarrow> w - (r - u) + 1800000000 = u + 1000000 * (1800 * (q + 1))"
  by (simp add: algebra_simps)

lemma nearest_hh_never_earlier:
  assumes "nearest_hh dt = Inr r"
  shows "wall dt \<le> wall r"
proof -
  have "wall dt mod 1800000000 < 1800000000"
    by (rule pos_mod_bound) simp
  moreover note field_bounds(3) [of dt]
  ultimately show ?thesis
    unfolding nearest_hh_result(1) [OF assms] by (simp only: split: if_split) linarith
qed

lemma nearest_hh_strictly_later:
  assumes "nearest_hh dt = Inr r" and "\<not> on_half_hour dt"
  shows "wall dt < wall r"
proof -
  from assms(2) have nz: "wall dt mod 1800000000 \<noteq> 0"
    unfolding on_half_hour_iff .
  have "wall dt mod 1800000000 < 1800000000"
    by (rule pos_mod_bound) simp
  moreover note field_bounds(3) [of dt]
  moreover have "wall r = wall dt - (wall dt mod 1800000000 - microsecond dt) + 1800000000"
    using nz by (simp only: nearest_hh_result(1) [OF assms(1)] if_False)
  ultimately show ?thesis
    by linarith
qed

lemma nearest_hh_microsecond:
  assumes "nearest_hh dt = Inr r"
  shows "microsecond r = microsecond dt"
proof (cases "wall dt mod 1800000000 = 0")
  case True
  show ?thesis
    unfolding microsecond_def nearest_hh_result(1) [OF assms]
    by (simp only: True simp_thms if_True)
next
  case False
  have "wall dt - (wall dt mod 1800000000 - wall dt mod 1000000) + 1800000000
        = wall dt mod 1000000 + 1000000 * (1800 * (wall dt div 1800000000 + 1))"
    by (rule shift_eq) (rule mult_div_mod_eq)
  then show ?thesis
    using False
    by (simp only: microsecond_def nearest_hh_result(1) [OF assms] if_False mod_mult_self2
        mod_mod_trivial)
qed

lemma nearest_hh_whole_second:
  assumes "nearest_hh dt = Inr r" and "microsecond dt = 0"
  shows "on_half_hour r"
    and "on_half_hour b \<Longrightarrow> wall dt \<le> wall b \<Longrightarrow> wall r \<le> wall b"
    and "nearest_hh r = Inr r"
proof -
  have w: "wall r =
     (if wall dt mod 1800000000 = 0 then wall dt
      else wall dt - wall dt mod 1800000000 + 1800000000)"
    unfolding nearest_hh_result(1) [OF assms(1)] assms(2) by (simp only: diff_zero)
  show 1: "on_half_hour r"
    unfolding on_half_hour_iff w by (simp only: round_down_plus split: if_split) simp
  show "on_half_hour b \<Longrightarrow> wall dt \<le> wall b \<Longrightarrow> wall r \<le> wall b"
    unfolding on_half_hour_iff w using next_multiple_least [of "wall b" "wall dt"]
    by (simp only: split: if_split) blast
  show "nearest_hh r = Inr r"
    using 1 by (rule nearest_hh_on_boundary)
qed

lemma ymd2ord_2018_6_3: "ymd2ord 2018 6 3 = 736848"
  by code_simp

lemma nearest_hh_examples:
  "nearest_hh (mk_datetime 2018 6 3 12 1 0 0 (Some utc))
     = Inr (mk_datetime 2018 6 3 12 30 0 0 (Some utc))"
  "nearest_hh (mk_datetime 2018 6 3 12 30 0 0 (Some utc))
     = Inr (mk_datetime 2018 6 3 12 30 0 0 (Some utc))"
  by (simp_all add: nearest_hh_def mk_datetime_def ymd2ord_2018_6_3 minute_def second_def
      microsecond_def dt_minus_def dt_plus_def timedelta_def MAXORDINAL_def)

text \<open>
  Claim C3: for every timezone-aware timestamp, the normaliser returns the smallest timestamp
  not before it whose minute is 0 or 30 and whose seconds and microseconds are zero.
  \<^verbatim>\<open>_nearest_hh\<close> tests the microseconds but subtracts only minutes and seconds, so the
  microseconds of the input stay in the result (\<open>nearest_hh_microsecond\<close>). At
  2018-06-03T12:01:00.500000 UTC the result is 12:30:00.500000, which is on no half-hour
  boundary. For an input with zero microseconds whose result is within the year range the
  claim holds (\<open>nearest_hh_whole_second\<close>, \<open>nearest_hh_never_earlier\<close>,
  \<open>nearest_hh_strictly_later\<close>).
\<close>

theorem nearest_hh_subsecond_not_on_boundary:
  "nearest_hh (mk_datetime 2018 6 3 12 1 0 500000 (Some utc))
     = Inr (mk_datetime 2018 6 3 12 30 0 500000 (Some utc))
   \<and> microsecond (mk_datetime 2018 6 3 12 30 0 500000 (Some utc)) = 500000
   \<and> \<not> on_half_hour (mk_datetime 2018 6 3 12 30 0 500000 (Some utc))"
  by (simp add: nearest_hh_def on_half_hour_def mk_datetime_def ymd2ord_2018_6_3 minute_def
      second_def microsecond_def dt_minus_def dt_plus_def timedelta_def MAXORDINAL_def)

text \<open>
  Claim C7: normalising twice equals normalising once. By the same defect, a result that
  keeps its microseconds is moved again: 2018-06-03T12:01:00.500000 UTC goes to
  12:30:00.500000 and from there to 13:00:00.500000.
\<close>

theorem nearest_hh_subsecond_not_idempotent:
  "nearest_hh (mk_datetime 2018 6 3 12 1 0 500000 (Some utc))
     = Inr (mk_datetime 2018 6 3 12 30 0 500000 (Some utc))
   \<and> nearest_hh (mk_datetime 2018 6 3 12 30 0 500000 (Some utc))
     = Inr (mk_datetime 2018 6 3 13 0 0 500000 (Some utc))
   \<and> mk_datetime 2018 6 3 13 0 0 500000 (Some utc)
     \<noteq> mk_datetime 2018 6 3 12 30 0 500000 (Some utc)"
  by (simp add: nearest_hh_def mk_datetime_def ymd2ord_2018_6_3 minute_def
      second_def microsecond_def dt_minus_def dt_plus_def timedelta_def MAXORDINAL_def)


section \<open>Request parameters\<close>


















text \<open>
  An offset that is no whole number of minutes: the text \<open>+00:00\<close> is then only the start of
  the printed offset, and \<^verbatim>\<open>replace\<close> rewrites it all the same.
\<close>

lemma isoformat_half_minute_offset:
  "isoformat (mk_datetime 2018 6 3 12 0 0 0
               (Some \<lparr>tz_ident = 3, tz_utcoffset = (\<lambda>w f. Some 30000000)\<rparr>))
     = Inr ''2018-06-03T12:00:00+00:00:30''"
  "replace ''+00:00'' ''Z'' ''2018-06-03T12:00:00+00:00:30'' = ''2018-06-03T12:00:00Z:30''"
  by code_simp+





section \<open>The retrying fetcher\<close>

text \<open>One pass through the loop of \<^verbatim>\<open>_fetch_url\<close>, by what the request gives.\<close>

lemma fetch_loop_error_step:
  assumes "try_counter < retries + 1" and "http_error (http_get srv (clock w) url)"
  shows "fetch_loop srv retries url try_counter delay w
           = fetch_loop srv retries url (try_counter + 1) (delay * 2)
               (w\<lparr>clock := clock w + 1, trace := trace w @ [Get url, Sleep delay]\<rparr>)"
  using assms
  by (subst fetch_loop.simps) (simp add: http_error_def Let_def split: http_result.splits)

lemma fetch_loop_ok_step:
  assumes "try_counter < retries + 1" and "http_get srv (clock w) url = Page status body"
    and "\<not> raise_for_status status"
  shows "fetch_loop srv retries url try_counter delay w
           = (Inr (Some (status, body)), w\<lparr>clock := clock w + 1, trace := trace w @ [Get url]\<rparr>)"
  using assms by (subst fetch_loop.simps) (simp add: Let_def)

lemma fetch_loop_fails_step:
  assumes "try_counter < retries + 1" and "http_get srv (clock w) url = Fails e"
  shows "fetch_loop srv retries url try_counter delay w
           = (Inl (RequestFailure e), w\<lparr>clock := clock w + 1, trace := trace w @ [Get url]\<rparr>)"
  using assms by (subst fetch_loop.simps) (simp add: Let_def)

lemma fetch_loop_done:
  assumes "\<not> try_counter < retries + 1"
  shows "fetch_loop srv retries url try_counter delay w = (Inr None, w)"
  using assms by (subst fetch_loop.simps) simp

lemma fetch_loop_failures:
  assumes "\<forall>j<k. http_error (http_get srv (clock w + j) url)"
    and "try_counter + int k \<le> retries + 1"
  shows "fetch_loop srv retries url try_counter delay w
           = fetch_loop srv retries url (try_counter + int k) (delay * 2 ^ k)
               (w\<lparr>clock := clock w + k,
                  trace := trace w @ concat (map (\<lambda>j. [Get url, Sleep (delay * 2 ^ j)]) [0..<k])\<rparr>)"
  using assms
proof (induction k)
  case 0
  show ?case by simp
next
  case (Suc k)
  let ?wk = "w\<lparr>clock := clock w + k,
                 trace := trace w @ concat (map (\<lambda>j. [Get url, Sleep (delay * 2 ^ j)]) [0..<k])\<rparr>"
  from Suc have "fetch_loop srv retries url try_counter delay w
           = fetch_loop srv retries url (try_counter + int k) (delay * 2 ^ k) ?wk"
    by simp
  also have "\<dots> = fetch_loop srv retries url (try_counter + int k + 1) (delay * 2 ^ k * 2)
               (?wk\<lparr>clock := clock ?wk + 1, trace := trace ?wk @ [Get url, Sleep (delay * 2 ^ k)]\<rparr>)"
  proof (rule fetch_loop_error_step)
    from Suc.prems(2) show "try_counter + int k < retries + 1" by simp
    from Suc.prems(1) show "http_error (http_get srv (clock ?wk) url)" by simp
  qed
  finally show ?case
    by (simp add: algebra_simps)
qed


lemma failed_attempts_delay:
  "concat (map (\<lambda>j. [Get url, Sleep (1 * 2 ^ j)]) [0..<k]) = failed_attempts url k"
  by (simp add: failed_attempts_def)

lemma fetch_loop_after_failures:
  assumes "\<forall>j<k. http_error (http_get srv (clock w + j) url)" and "int k \<le> retries + 1"
  shows "fetch_loop srv retries url 0 1 w
           = fetch_loop srv retries url (int k) (2 ^ k)
               (w\<lparr>clock := clock w + k, trace := trace w @ failed_attempts url k\<rparr>)"
  using fetch_loop_failures [of k srv w url 0 retries 1] assms
  by (simp add: failed_attempts_def)

lemma fetch_url_exhausted:
  assumes "\<forall>j<nat (retries + 1). http_error (http_get srv (clock w + j) url)"
  shows "fetch_url srv retries url w
           = (Inl communication_error,
              w\<lparr>clock := clock w + nat (retries + 1),
                 trace := trace w @ failed_attempts url (nat (retries + 1))\<rparr>)"
proof (cases "0 \<le> retries + 1")
  case True
  then have "fetch_loop srv retries url 0 1 w
           = fetch_loop srv retries url (int (nat (retries + 1))) (2 ^ nat (retries + 1))
               (w\<lparr>clock := clock w + nat (retries + 1),
                  trace := trace w @ failed_attempts url (nat (retries + 1))\<rparr>)"
    by (intro fetch_loop_after_failures assms) simp
  also have "\<dots> = (Inr None, w\<lparr>clock := clock w + nat (retries + 1),
                  trace := trace w @ failed_attempts url (nat (retries + 1))\<rparr>)"
    using True by (intro fetch_loop_done) simp
  finally show ?thesis
    by (simp add: fetch_url_def)
next
  case False
  then have "fetch_loop srv retries url 0 1 w = (Inr None, w)"
    by (intro fetch_loop_done) simp
  with False show ?thesis
    by (simp add: fetch_url_def failed_attempts_def)
qed

lemma fetch_loop_first_ok:
  assumes "k < nat (retries + 1)" and "\<forall>j<k. http_error (http_get srv (clock w + j) url)"
    and "http_get srv (clock w + k) url = Page status body" and "\<not> raise_for_status status"
  shows "fetch_loop srv retries url 0 1 w
           = (Inr (Some (status, body)),
              w\<lparr>clock := clock w + k + 1, trace := trace w @ failed_attempts url k @ [Get url]\<rparr>)"
proof -
  let ?wk = "w\<lparr>clock := clock w + k, trace := trace w @ failed_attempts url k\<rparr>"
  from assms(1) have "fetch_loop srv retries url 0 1 w
           = fetch_loop srv retries url (int k) (2 ^ k) ?wk"
    by (intro fetch_loop_after_failures assms) simp
  also have "\<dots> = (Inr (Some (status, body)),
                    ?wk\<lparr>clock := clock ?wk + 1, trace := trace ?wk @ [Get url]\<rparr>)"
    using assms by (intro fetch_loop_ok_step) simp_all
  finally show ?thesis by simp
qed

lemma fetch_url_first_ok:
  assumes "k < nat (retries + 1)" and "\<forall>j<k. http_error (http_get srv (clock w + j) url)"
    and "http_get srv (clock w + k) url = Page status body" and "\<not> raise_for_status status"
  shows "fetch_url srv retries url w
           = (case loads srv body of None \<Rightarrow> Inl communication_error | Some j \<Rightarrow> Inr j,
              w\<lparr>clock := clock w + k + 1, trace := trace w @ failed_attempts url k @ [Get url]\<rparr>)"
  by (simp add: fetch_url_def fetch_loop_first_ok [OF assms] split: option.split)

lemma fetch_url_first_fails:
  assumes "k < nat (retries + 1)" and "\<forall>j<k. http_error (http_get srv (clock w + j) url)"
    and "http_get srv (clock w + k) url = Fails e"
  shows "fetch_url srv retries url w
           = (Inl (RequestFailure e),
              w\<lparr>clock := clock w + k + 1, trace := trace w @ failed_attempts url k @ [Get url]\<rparr>)"
proof -
  let ?wk = "w\<lparr>clock := clock w + k, trace := trace w @ failed_attempts url k\<rparr>"
  from assms(1) have "fetch_loop srv retries url 0 1 w
           = fetch_loop srv retries url (int k) (2 ^ k) ?wk"
    by (intro fetch_loop_after_failures assms) simp
  also have "\<dots> = (Inl (RequestFailure e),
                    ?wk\<lparr>clock := clock ?wk + 1, trace := trace ?wk @ [Get url]\<rparr>)"
    using assms by (intro fetch_loop_fails_step) simp_all
  finally show ?thesis by (simp add: fetch_url_def)
qed

lemma first_exception:
  "(\<forall>j<m. P j) \<or> (\<exists>k<m. (\<forall>j<k. P j) \<and> \<not> P k)" for m :: nat
proof (cases "\<forall>j<m. P j")
  case True
  then show ?thesis by simp
next
  case False
  then obtain i where i: "i < m" "\<not> P i" by auto
  define k where "k = (LEAST i. \<not> P i)"
  have 1: "\<not> P k" unfolding k_def using i(2) by (rule LeastI)
  have "k \<le> i" unfolding k_def using i(2) by (rule Least_le)
  with i(1) have 2: "k < m" by simp
  have 3: "\<forall>j<k. P j" unfolding k_def using not_less_Least by blast
  from 1 2 3 show ?thesis by blast
qed

lemma requests_append: "requests (a @ b) = requests a @ requests b"
  by (induction a rule: requests.induct) simp_all

lemma requests_failed_attempts: "requests (failed_attempts url k) = replicate k url"
  by (induction k) (simp_all add: failed_attempts_def requests_append replicate_append_same)


lemma first_unique:
  "(\<forall>j<k. P j) \<Longrightarrow> \<not> P k \<Longrightarrow> (\<forall>j<k'. P j) \<Longrightarrow> \<not> P k' \<Longrightarrow> k = k'" for k k' :: nat
  by (meson linorder_neqE_nat)

lemma fetch_url_attempts_bound:
  "length (requests (trace (snd (fetch_url srv retries url w))))
     \<le> length (requests (trace w)) + nat (retries + 1)"
proof -
  let ?P = "\<lambda>j. http_error (http_get srv (clock w + j) url)"
  from first_exception [of "nat (retries + 1)" ?P] show ?thesis
  proof
    assume "\<forall>j<nat (retries + 1). ?P j"
    then show ?thesis
      by (simp add: fetch_url_exhausted requests_append requests_failed_attempts)
  next
    assume "\<exists>k<nat (retries + 1). (\<forall>j<k. ?P j) \<and> \<not> ?P k"
    then obtain k where k: "k < nat (retries + 1)" "\<forall>j<k. ?P j" "\<not> ?P k" by blast
    show ?thesis
    proof (cases "http_get srv (clock w + k) url")
      case (Page status body)
      with k(3) have "\<not> raise_for_status status" by (simp add: http_error_def)
      from fetch_url_first_ok [OF k(1) k(2) Page this] k(1) show ?thesis
        by (simp add: requests_append requests_failed_attempts)
    next
      case (Fails e)
      from fetch_url_first_fails [OF k(1) k(2) Fails] k(1) show ?thesis
        by (simp add: requests_append requests_failed_attempts)
    qed
  qed
qed

lemma fetch_url_communication_error_iff:
  "fst (fetch_url srv retries url w) = Inl communication_error \<longleftrightarrow>
     (\<forall>j<nat (retries + 1). http_error (http_get srv (clock w + j) url))
     \<or> (\<exists>k<nat (retries + 1). (\<forall>j<k. http_error (http_get srv (clock w + j) url))
          \<and> (\<exists>status body. http_get srv (clock w + k) url = Page status body
                \<and> \<not> raise_for_status status \<and> loads srv body = None))"
  (is "?L \<longleftrightarrow> ?A \<or> ?B")
proof -
  let ?P = "\<lambda>j. http_error (http_get srv (clock w + j) url)"
  from first_exception [of "nat (retries + 1)" ?P] show ?thesis
  proof
    assume all: "\<forall>j<nat (retries + 1). ?P j"
    then have ?L by (simp add: fetch_url_exhausted)
    with all show ?thesis by blast
  next
    assume "\<exists>k<nat (retries + 1). (\<forall>j<k. ?P j) \<and> \<not> ?P k"
    then obtain k where k: "k < nat (retries + 1)" "\<forall>j<k. ?P j" "\<not> ?P k" by blast
    from k(1) k(3) have notA: "\<not> ?A" by blast
    have only: "k' = k" if "\<forall>j<k'. ?P j" "\<not> ?P k'" for k'
      using that k(2) k(3) by (rule first_unique)
    show ?thesis
    proof (cases "http_get srv (clock w + k) url")
      case (Page status body)
      with k(3) have ok: "\<not> raise_for_status status" by (simp add: http_error_def)
      have L: "?L \<longleftrightarrow> loads srv body = None"
        by (simp add: fetch_url_first_ok [OF k(1) k(2) Page ok] split: option.split)
      have B: "?B \<longleftrightarrow> loads srv body = None"
      proof
        assume ?B
        then obtain k' status' body' where b: "\<forall>j<k'. ?P j"
          "http_get srv (clock w + k') url = Page status' body'" "\<not> raise_for_status status'"
          "loads srv body' = None" by blast
        from b(2) b(3) have "\<not> ?P k'" by (simp add: http_error_def)
        with b(1) have "k' = k" by (rule only)
        with b(2) b(4) Page show "loads srv body = None" by simp
      next
        assume "loads srv body = None"
        with k(1) k(2) Page ok show ?B by blast
      qed
      show ?thesis by (simp only: L B notA simp_thms)
    next
      case (Fails e)
      have L: "\<not> ?L"
        by (simp add: fetch_url_first_fails [OF k(1) k(2) Fails] communication_error_def)
      have B: "\<not> ?B"
      proof
        assume ?B
        then obtain k' status' body' where b: "\<forall>j<k'. ?P j"
          "http_get srv (clock w + k') url = Page status' body'" "\<not> raise_for_status status'"
          by blast
        from b(2) b(3) have "\<not> ?P k'" by (simp add: http_error_def)
        with b(1) have "k' = k" by (rule only)
        with b(2) Fails show False by simp
      qed
      show ?thesis by (simp only: L B notA simp_thms)
    qed
  qed
qed

lemma failed_attempts_2: "failed_attempts url 2 = [Get url, Sleep 1, Get url, Sleep 2]"
  by (simp add: failed_attempts_def numeral_2_eq_2)

lemma failed_attempts_0: "failed_attempts url 0 = []"
  by (simp add: failed_attempts_def)

text \<open>
  Claim C1: the fetcher makes at most \<open>retries + 1\<close> requests; it stops at the first answer
  with a successful status and returns its body parsed as JSON; after each answer with an
  error status it sleeps, for 1 time unit at first and twice as long each time; and it raises
  the communication error exactly when all \<open>retries + 1\<close> answers have an error status or the
  first successful body does not parse.

  The answers to the attempts are \<open>http_get srv (clock w + j) url\<close> for \<open>j = 0, 1, ...\<close>; the trace
  after \<open>k\<close> failed attempts is \<open>failed_attempts url k\<close>.
\<close>

theorem fetch_url_contract:
  "length (requests (trace (snd (fetch_url srv retries url w))))
     \<le> length (requests (trace w)) + nat (retries + 1)
   \<and> (k < nat (retries + 1) \<and> (\<forall>j<k. http_error (http_get srv (clock w + j) url))
        \<and> http_get srv (clock w + k) url = Page status body \<and> \<not> raise_for_status status \<longrightarrow>
      fetch_url srv retries url w
        = (case loads srv body of None \<Rightarrow> Inl communication_error | Some j \<Rightarrow> Inr j,
           w\<lparr>clock := clock w + k + 1, trace := trace w @ failed_attempts url k @ [Get url]\<rparr>))
   \<and> ((\<forall>j<nat (retries + 1). http_error (http_get srv (clock w + j) url)) \<longrightarrow>
      fetch_url srv retries url w
        = (Inl communication_error,
           w\<lparr>clock := clock w + nat (retries + 1),
              trace := trace w @ failed_attempts url (nat (retries + 1))\<rparr>))
   \<and> (fst (fetch_url srv retries url w) = Inl communication_error \<longleftrightarrow>
        (\<forall>j<nat (retries + 1). http_error (http_get srv (clock w + j) url))
        \<or> (\<exists>k<nat (retries + 1). (\<forall>j<k. http_error (http_get srv (clock w + j) url))
             \<and> (\<exists>status body. http_get srv (clock w + k) url = Page status body
                   \<and> \<not> raise_for_status status \<and> loads srv body = None)))"
proof (intro conjI impI)
  show "length (requests (trace (snd (fetch_url srv retries url w))))
     \<le> length (requests (trace w)) + nat (retries + 1)"
    by (rule fetch_url_attempts_bound)
next
  assume "k < nat (retries + 1) \<and> (\<forall>j<k. http_error (http_get srv (clock w + j) url))
        \<and> http_get srv (clock w + k) url = Page status body \<and> \<not> raise_for_status status"
  then show "fetch_url srv retries url w
        = (case loads srv body of None \<Rightarrow> Inl communication_error | Some j \<Rightarrow> Inr j,
           w\<lparr>clock := clock w + k + 1, trace := trace w @ failed_attempts url k @ [Get url]\<rparr>)"
    by (intro fetch_url_first_ok) blast+
next
  assume "\<forall>j<nat (retries + 1). http_error (http_get srv (clock w + j) url)"
  then show "fetch_url srv retries url w
        = (Inl communication_error,
           w\<lparr>clock := clock w + nat (retries + 1),
              trace := trace w @ failed_attempts url (nat (retries + 1))\<rparr>)"
    by (rule fetch_url_exhausted)
next
  show "fst (fetch_url srv retries url w) = Inl communication_error \<longleftrightarrow>
        (\<forall>j<nat (retries + 1). http_error (http_get srv (clock w + j) url))
        \<or> (\<exists>k<nat (retries + 1). (\<forall>j<k. http_error (http_get srv (clock w + j) url))
             \<and> (\<exists>status body. http_get srv (clock w + k) url = Page status body
                   \<and> \<not> raise_for_status status \<and> loads srv body = None))"
    by (rule fetch_url_communication_error_iff)
qed

theorem fetch_url_contract_witness:
  "(2::nat) < nat (3 + 1)
   \<and> http_error (http_get flaky_service 0 ''u'') \<and> http_error (http_get flaky_service 1 ''u'')
   \<and> http_get flaky_service 2 ''u'' = Page 200 empty_doc_text \<and> \<not> raise_for_status 200
   \<and> fetch_url flaky_service 3 ''u'' world0
       = (Inr (Doc [] []),
          \<lparr>clock = 3, trace = [Get ''u'', Sleep 1, Get ''u'', Sleep 2, Get ''u'']\<rparr>)
   \<and> http_error (http_get down_service 0 ''u'') \<and> http_error (http_get down_service 1 ''u'')
   \<and> fetch_url down_service 1 ''u'' world0
       = (Inl communication_error,
          \<lparr>clock = 2, trace = [Get ''u'', Sleep 1, Get ''u'', Sleep 2]\<rparr>)"
proof -
  have f: "http_error (http_get flaky_service 0 ''u'')" "http_error (http_get flaky_service 1 ''u'')"
    and g: "http_get flaky_service 2 ''u'' = Page 200 empty_doc_text"
    and s: "\<not> raise_for_status 200"
    and d: "http_error (http_get down_service n ''u'')" for n
    by (simp_all add: flaky_service_def down_service_def http_error_def raise_for_status_def)
  have c: "clock world0 = 0" and t: "trace world0 = []"
    by (simp_all add: world0_def)
  have fa: "\<forall>j<2. http_error (http_get flaky_service (clock world0 + j) ''u'')"
    using f by (simp add: c less_2_cases_iff)
  have da: "\<forall>j<nat (1 + 1). http_error (http_get down_service (clock world0 + j) ''u'')"
    using d by simp
  have g': "http_get flaky_service (clock world0 + 2) ''u'' = Page 200 empty_doc_text"
    by (simp add: flaky_service_def c)
  have l: "loads flaky_service empty_doc_text = Some (Doc [] [])"
    by (simp add: flaky_service_def loads_demo_def)
  have "fetch_url flaky_service 3 ''u'' world0
       = (case loads flaky_service empty_doc_text of
            None \<Rightarrow> Inl communication_error | Some j \<Rightarrow> Inr j,
          world0\<lparr>clock := clock world0 + 2 + 1,
                 trace := trace world0 @ failed_attempts ''u'' 2 @ [Get ''u'']\<rparr>)"
    by (rule fetch_url_contract [where srv = flaky_service and retries = 3 and k = 2
          and status = 200, THEN conjunct2, THEN conjunct1, THEN mp])
       (intro conjI fa g' s, simp)
  then have 1: "fetch_url flaky_service 3 ''u'' world0
       = (Inr (Doc [] []),
          \<lparr>clock = 3, trace = [Get ''u'', Sleep 1, Get ''u'', Sleep 2, Get ''u'']\<rparr>)"
    by (simp add: l failed_attempts_2 world0_def)
  have "fetch_url down_service 1 ''u'' world0
       = (Inl communication_error,
           world0\<lparr>clock := clock world0 + nat (1 + 1),
              trace := trace world0 @ failed_attempts ''u'' (nat (1 + 1))\<rparr>)"
    by (rule fetch_url_contract [where srv = down_service and retries = 1,
          THEN conjunct2, THEN conjunct2, THEN conjunct1, THEN mp])
       (rule da)
  then have 2: "fetch_url down_service 1 ''u'' world0
       = (Inl communication_error,
          \<lparr>clock = 2, trace = [Get ''u'', Sleep 1, Get ''u'', Sleep 2]\<rparr>)"
    by (simp add: failed_attempts_2 world0_def)
  show ?thesis
    by (intro conjI f g s d 1 2) simp
qed

text \<open>
  Claim C6: a failure that is no HTTP error status (a connection error, say) is not retried.
  When the attempt after \<open>k\<close> error statuses fails so, the exception leaves \<^verbatim>\<open>_fetch_url\<close> as it
  is (it is not turned into the client's exception), the trace ends with that request (no
  sleep follows it), and no further request is made, however many tries are left.
\<close>

theorem fetch_url_transport_failure_not_retried:
  "k < nat (retries + 1) \<and> (\<forall>j<k. http_error (http_get srv (clock w + j) url))
     \<and> http_get srv (clock w + k) url = Fails e \<longrightarrow>
   fetch_url srv retries url w
     = (Inl (RequestFailure e),
        w\<lparr>clock := clock w + k + 1, trace := trace w @ failed_attempts url k @ [Get url]\<rparr>)
   \<and> fst (fetch_url srv retries url w) \<noteq> Inl communication_error"
proof
  assume a: "k < nat (retries + 1) \<and> (\<forall>j<k. http_error (http_get srv (clock w + j) url))
     \<and> http_get srv (clock w + k) url = Fails e"
  then have "fetch_url srv retries url w
     = (Inl (RequestFailure e),
        w\<lparr>clock := clock w + k + 1, trace := trace w @ failed_attempts url k @ [Get url]\<rparr>)"
    by (intro fetch_url_first_fails) blast+
  then show "fetch_url srv retries url w
     = (Inl (RequestFailure e),
        w\<lparr>clock := clock w + k + 1, trace := trace w @ failed_attempts url k @ [Get url]\<rparr>)
   \<and> fst (fetch_url srv retries url w) \<noteq> Inl communication_error"
    by (simp add: communication_error_def)
qed

theorem fetch_url_transport_failure_not_retried_witness:
  "(0::nat) < nat (3 + 1)
   \<and> http_get unreachable_service 0 ''u'' = Fails ''ConnectionError''
   \<and> fetch_url unreachable_service 3 ''u'' world0
       = (Inl (RequestFailure ''ConnectionError''), \<lparr>clock = 1, trace = [Get ''u'']\<rparr>)"
proof -
  have g: "http_get unreachable_service (clock world0 + 0) ''u'' = Fails ''ConnectionError''"
    and g0: "http_get unreachable_service 0 ''u'' = Fails ''ConnectionError''"
    by (simp_all add: unreachable_service_def)
  have "fetch_url unreachable_service 3 ''u'' world0
     = (Inl (RequestFailure ''ConnectionError''),
        world0\<lparr>clock := clock world0 + 0 + 1,
               trace := trace world0 @ failed_attempts ''u'' 0 @ [Get ''u'']\<rparr>)"
    by (rule fetch_url_transport_failure_not_retried [where srv = unreachable_service
          and retries = 3 and k = 0, THEN mp, THEN conjunct1])
       (intro conjI g, simp_all)
  then have "fetch_url unreachable_service 3 ''u'' world0
       = (Inl (RequestFailure ''ConnectionError''), \<lparr>clock = 1, trace = [Get ''u'']\<rparr>)"
    by (simp add: failed_attempts_0 world0_def)
  with g0 show ?thesis
    by simp
qed


section \<open>Checks on the arguments\<close>

text \<open>\<^verbatim>\<open>latest\<close> rejects a region that is no integer from 0 to 327, and extra fields that are no string, before any request.\<close>

lemma latest_rejects_pes_id:
  "\<not> valid_pes_id pes_id \<Longrightarrow>
     latest srv retries pes_id data_frame extra_fields w
       = (Inl (PVLiveException ''The pes_id must be an integer between 0 and 327 (inclusive).''), w)"
  by (simp add: latest_def)

lemma latest_rejects_extra_fields:
  "valid_pes_id pes_id \<Longrightarrow> \<not> is_str extra_fields \<Longrightarrow>
     latest srv retries pes_id data_frame extra_fields w
       = (Inl (PVLiveException ''The extra_fields must be a comma-separated string.''), w)"
  by (simp add: latest_def)

lemma valid_pes_id_iff: "valid_pes_id v \<longleftrightarrow> (\<exists>n. v = PInt n \<and> 0 \<le> n \<and> n \<le> 327)"
  by (cases v) (auto simp: valid_pes_id_def)

text \<open>
  Claim C4: every public operation raises the client's exception, before any network
  activity, when the region is no integer in [0, 327], the extra fields are no string, or the
  timestamp has the wrong type or no timezone.

  Only \<^verbatim>\<open>latest\<close> checks the region and the extra fields. \<^verbatim>\<open>at_time\<close>, \<^verbatim>\<open>between\<close>,
  \<^verbatim>\<open>day_peak\<close> and \<^verbatim>\<open>day_energy\<close> build the exception for a bad timestamp but never raise it, and
  do not look at the region at all. A naive timestamp, and region 328 with extra fields 7,
  both reach the service.
\<close>

theorem at_time_naive_timestamp_reaches_service:
  "at_time (doc_service (Doc [[Num 0, Str ''2018-06-03T12:00:00Z'', Num 5]] columns3)) 3
     (PDatetime (mk_datetime 2018 6 3 12 0 0 0 None)) (PInt 0) False (PStr []) world0
   = (Inr (Tuple [Num 0, Str ''2018-06-03T12:00:00Z'', Num 5]),
      \<lparr>clock = 1,
         trace = [Get ''https://api0.solar.sheffield.ac.uk/pvlive/v2/pes/0?start=2018-06-03T12:00:00&end=2018-06-03T12:00:00'']\<rparr>)
   \<and> at_time (doc_service (Doc [[Num 0, Str ''2018-06-03T12:00:00Z'', Num 5]] columns3)) 3
     (PDatetime (mk_datetime 2018 6 3 12 0 0 0 (Some utc))) (PInt 328) False (PInt 7) world0
   = (Inr (Tuple [Num 0, Str ''2018-06-03T12:00:00Z'', Num 5]),
      \<lparr>clock = 1,
         trace = [Get ''https://api0.solar.sheffield.ac.uk/pvlive/v2/pes/328?extra_fields=7&start=2018-06-03T12:00:00Z&end=2018-06-03T12:00:00Z'']\<rparr>)"
  by code_simp

section \<open>Ranges\<close>

text \<open>
  The guard of the loop is Python's \<open><\<close>: two timestamps of one time-zone object are compared
  by their wall clocks, whatever their offsets and folds.
\<close>

lemma dt_lt_same_zone: "same_tz (tzinfo a) (tzinfo b) \<Longrightarrow> dt_lt a b = Inr (wall a < wall b)"
  by (simp add: dt_lt_def)








section \<open>The daily operations\<close>

text \<open>
  The window of a day: \<^verbatim>\<open>datetime.combine\<close> gives 00:30 UTC on the day, and adding a day and
  subtracting half an hour gives 00:00 on the next day, unless the day is the last one of the
  calendar (9999-12-31), where adding a day raises \<^verbatim>\<open>OverflowError\<close>.
\<close>

lemma combine_date: "combine_0030_utc (PDate n) = Inr (half_past_midnight n)"
  by (simp add: combine_0030_utc_def half_past_midnight_def)

lemma day_end_half_past_midnight:
  assumes "1 \<le> n" and "n < MAXORDINAL"
  shows "day_end (half_past_midnight n) = Inr (midnight_after n)"
  using assms
  by (simp add: day_end_def half_past_midnight_def midnight_after_def dt_plus_def dt_minus_def
      timedelta_def MAXORDINAL_def algebra_simps)

lemma day_end_last_day: "day_end (half_past_midnight MAXORDINAL) = Inl OverflowError"
  by (simp add: day_end_def half_past_midnight_def dt_plus_def timedelta_def MAXORDINAL_def)

lemma day_window_utc:
  "utcoffset_of (half_past_midnight n) = Inr (Some 0)"
  "utcoffset_of (midnight_after n) = Inr (Some 0)"
  by (simp_all add: utcoffset_of_def half_past_midnight_def midnight_after_def utc_def)

lemma half_past_midnight_mk:
  "half_past_midnight (ymd2ord y m d) = mk_datetime y m d 0 30 0 0 (Some utc)"
  by (simp add: half_past_midnight_def mk_datetime_def)

lemma midnight_after_next_day:
  "midnight_after n = \<lparr>wall = ((n + 1) - 1) * 86400000000, fold = 0, tzinfo = Some utc\<rparr>"
  by (simp add: midnight_after_def)

text \<open>A service that answers at once is asked once.\<close>

lemma fetch_url_doc_service:
  assumes "0 \<le> retries"
  shows "fetch_url (doc_service j) retries url w
           = (Inr j, w\<lparr>clock := clock w + 1, trace := trace w @ [Get url]\<rparr>)"
proof -
  have "fetch_url (doc_service j) retries url w
     = (case loads (doc_service j) ''doc'' of None \<Rightarrow> Inl communication_error | Some j \<Rightarrow> Inr j,
        w\<lparr>clock := clock w + 0 + 1, trace := trace w @ failed_attempts url 0 @ [Get url]\<rparr>)"
    using assms
    by (intro fetch_url_first_ok [where k = 0 and status = 200 and body = "''doc''"])
       (simp_all add: doc_service_def raise_for_status_def)
  then show ?thesis
    by (simp add: doc_service_def failed_attempts_0)
qed

lemma request_doc_service:
  assumes "0 \<le> retries"
    and "(case ps of Inl e \<Rightarrow> Inl e | Inr params \<Rightarrow> build_url pes_id params) = Inr url"
  shows "request (doc_service j) retries pes_id ps w
           = (Inr j, w\<lparr>clock := clock w + 1, trace := trace w @ [Get url]\<rparr>)"
  using assms(2)
  by (cases ps) (simp_all add: request_def query_api_def fetch_url_doc_service [OF assms(1)])

lemma day_url_2018_6_3:
  "(case compile_params (PStr []) (Some (half_past_midnight 736848))
           (Some (midnight_after 736848)) of
      Inl e \<Rightarrow> Inl e
    | Inr params \<Rightarrow> build_url (PInt 0) params)
   = Inr ''https://api0.solar.sheffield.ac.uk/pvlive/v2/pes/0?start=2018-06-03T00:30:00Z&end=2018-06-04T00:00:00Z''"
  by code_simp

lemma request_day_2018_6_3:
  "request (doc_service j) 3 (PInt 0)
     (compile_params (PStr []) (Some (half_past_midnight 736848)) (Some (midnight_after 736848)))
     world0
   = (Inr j,
      \<lparr>clock = 1,
         trace = [Get ''https://api0.solar.sheffield.ac.uk/pvlive/v2/pes/0?start=2018-06-03T00:30:00Z&end=2018-06-04T00:00:00Z'']\<rparr>)"
  using request_doc_service [OF _ day_url_2018_6_3, of 3 j world0]
  by (simp add: world0_def)

subsection \<open>The energy of a day\<close>

lemma gen_or_generation_row:
  "generation_row x \<Longrightarrow> gen_or (Num 0) x = Inr (Num (generation_or_zero x))"
  by (auto simp: generation_row_def gen_or_def generation_or_zero_def split: cell.splits)

lemma gens_or_zero:
  "\<forall>x\<in>set rows. generation_row x \<Longrightarrow>
     gens_or (Num 0) rows = Inr (map (\<lambda>x. Num (generation_or_zero x)) rows)"
  by (induction rows) (simp_all add: gen_or_generation_row)

lemma sum_loop_numbers: "sum_loop (Num a) (map Num vs) = Inr (Num (a + sum_list vs))"
  by (induction vs arbitrary: a) (simp_all add: add.assoc)

lemma sum_generation:
  "sum_loop (Num 0) (map (\<lambda>x. Num (generation_or_zero x)) rows)
     = Inr (Num (sum_list (map generation_or_zero rows)))"
  using sum_loop_numbers [of 0 "map generation_or_zero rows"] by (simp add: comp_def)

lemma day_energy_world:
  "snd (day_energy srv retries (PDate n) pes_id w)
     = (case day_end (half_past_midnight n) of
          Inl e \<Rightarrow> w
        | Inr end' \<Rightarrow>
            snd (request srv retries pes_id
                   (compile_params (PStr []) (Some (half_past_midnight n)) (Some end')) w))"
  by (simp add: day_energy_def combine_date split: sum.splits prod.splits)

lemma day_energy_last_day:
  "day_energy srv retries (PDate MAXORDINAL) pes_id w = (Inl OverflowError, w)"
  by (simp add: day_energy_def combine_date day_end_last_day)

text \<open>
  Claim C8: for every day and region, \<^verbatim>\<open>day_energy\<close> queries the window from 00:30 on that
  day to 00:00 on the next day; for a non-empty data array it returns half the sum of the
  generation values, null counting as 0 (so 2.0, null, 4.0 give 3.0); for no data at all it
  returns null.

  For the last day of the calendar there is no next day: the end of the window cannot be
  computed and nothing is queried.
\<close>

theorem day_energy_last_day_overflow:
  "day_energy unreachable_service 3 (PDate (ymd2ord 9999 12 31)) (PInt 0) world0
     = (Inl OverflowError, world0)"
proof -
  have "ymd2ord 9999 12 31 = MAXORDINAL"
    unfolding MAXORDINAL_def by code_simp
  then show ?thesis
    by (simp only: day_energy_last_day)
qed

text \<open>
  Claim C8, amended: for every day before 9999-12-31 and every region, all that
  \<^verbatim>\<open>day_energy\<close> does to the world is the query for the window from 00:30 on that day to 00:00
  on the next day; when that query returns a non-empty data array of rows with a number or
  null as generation value, the result is half the sum of the generation values, null
  counting as 0; when it returns an empty data array, the result is null.
\<close>

theorem day_energy_half_sum:
  "1 \<le> n \<and> n < MAXORDINAL \<longrightarrow>
     snd (day_energy srv retries (PDate n) pes_id w)
       = snd (request srv retries pes_id
                (compile_params (PStr []) (Some (half_past_midnight n)) (Some (midnight_after n)))
                w)
     \<and> (request srv retries pes_id
           (compile_params (PStr []) (Some (half_past_midnight n)) (Some (midnight_after n))) w
           = (Inr (Doc rows meta), w')
         \<and> rows \<noteq> [] \<and> (\<forall>x\<in>set rows. generation_row x) \<longrightarrow>
         day_energy srv retries (PDate n) pes_id w
           = (Inr (Some (sum_list (map generation_or_zero rows) * 0.5)), w'))
     \<and> (request srv retries pes_id
           (compile_params (PStr []) (Some (half_past_midnight n)) (Some (midnight_after n))) w
           = (Inr (Doc [] meta), w') \<longrightarrow>
         day_energy srv retries (PDate n) pes_id w = (Inr None, w'))"
proof (intro impI conjI)
  assume n: "1 \<le> n \<and> n < MAXORDINAL"
  then have e: "day_end (half_past_midnight n) = Inr (midnight_after n)"
    by (intro day_end_half_past_midnight) simp_all
  show "snd (day_energy srv retries (PDate n) pes_id w)
       = snd (request srv retries pes_id
                (compile_params (PStr []) (Some (half_past_midnight n)) (Some (midnight_after n)))
                w)"
    by (simp add: day_energy_world e)
  {
    assume "request srv retries pes_id
           (compile_params (PStr []) (Some (half_past_midnight n)) (Some (midnight_after n))) w
           = (Inr (Doc rows meta), w')
         \<and> rows \<noteq> [] \<and> (\<forall>x\<in>set rows. generation_row x)"
    then show "day_energy srv retries (PDate n) pes_id w
           = (Inr (Some (sum_list (map generation_or_zero rows) * 0.5)), w')"
      by (simp add: day_energy_def combine_date e gens_or_zero sum_generation)
  }
  {
    assume "request srv retries pes_id
           (compile_params (PStr []) (Some (half_past_midnight n)) (Some (midnight_after n))) w
           = (Inr (Doc [] meta), w')"
    then show "day_energy srv retries (PDate n) pes_id w = (Inr None, w')"
      by (simp add: day_energy_def combine_date e)
  }
qed

theorem day_energy_half_sum_witness:
  "(1::int) \<le> 736848 \<and> 736848 < MAXORDINAL
   \<and> request (doc_service (Doc [[Num 0, Str ''a'', Num 2], [Num 0, Str ''b'', Null],
                                 [Num 0, Str ''c'', Num 4]] columns3)) 3 (PInt 0)
       (compile_params (PStr []) (Some (half_past_midnight 736848)) (Some (midnight_after 736848)))
       world0
     = (Inr (Doc [[Num 0, Str ''a'', Num 2], [Num 0, Str ''b'', Null], [Num 0, Str ''c'', Num 4]]
               columns3),
        \<lparr>clock = 1,
           trace = [Get ''https://api0.solar.sheffield.ac.uk/pvlive/v2/pes/0?start=2018-06-03T00:30:00Z&end=2018-06-04T00:00:00Z'']\<rparr>)
   \<and> generation_row [Num 0, Str ''a'', Num 2] \<and> generation_row [Num 0, Str ''b'', Null]
   \<and> generation_row [Num 0, Str ''c'', Num 4]
   \<and> day_energy (doc_service (Doc [[Num 0, Str ''a'', Num 2], [Num 0, Str ''b'', Null],
                                    [Num 0, Str ''c'', Num 4]] columns3)) 3 (PDate 736848)
         (PInt 0) world0
     = (Inr (Some 3),
        \<lparr>clock = 1,
           trace = [Get ''https://api0.solar.sheffield.ac.uk/pvlive/v2/pes/0?start=2018-06-03T00:30:00Z&end=2018-06-04T00:00:00Z'']\<rparr>)
   \<and> day_energy (doc_service (Doc [] columns3)) 3 (PDate 736848) (PInt 0) world0
     = (Inr None,
        \<lparr>clock = 1,
           trace = [Get ''https://api0.solar.sheffield.ac.uk/pvlive/v2/pes/0?start=2018-06-03T00:30:00Z&end=2018-06-04T00:00:00Z'']\<rparr>)"
proof -
  let ?rows = "[[Num 0, Str ''a'', Num 2], [Num 0, Str ''b'', Null], [Num 0, Str ''c'', Num 4]]"
  let ?w = "\<lparr>clock = 1,
           trace = [Get ''https://api0.solar.sheffield.ac.uk/pvlive/v2/pes/0?start=2018-06-03T00:30:00Z&end=2018-06-04T00:00:00Z'']\<rparr>"
  have n: "(1::int) \<le> 736848" "736848 < MAXORDINAL"
    by (simp_all add: MAXORDINAL_def)
  have g: "generation_row [Num 0, Str ''a'', Num 2]" "generation_row [Num 0, Str ''b'', Null]"
    "generation_row [Num 0, Str ''c'', Num 4]"
    by (simp_all add: generation_row_def)
  have nn: "(1::int) \<le> 736848 \<and> 736848 < MAXORDINAL"
    using n by simp
  have "day_energy (doc_service (Doc ?rows columns3)) 3 (PDate 736848) (PInt 0) world0
          = (Inr (Some (sum_list (map generation_or_zero ?rows) * 0.5)), ?w)"
    by (rule day_energy_half_sum [where n = 736848 and retries = 3 and pes_id = "PInt 0"
          and w = world0 and w' = ?w and meta = columns3
          and srv = "doc_service (Doc ?rows columns3)" and rows = ?rows,
          THEN mp, OF nn, THEN conjunct2, THEN conjunct1, THEN mp])
       (simp add: request_day_2018_6_3 g)
  then have 1: "day_energy (doc_service (Doc ?rows columns3)) 3 (PDate 736848) (PInt 0) world0
          = (Inr (Some 3), ?w)"
    by (simp add: generation_or_zero_def)
  have 2: "day_energy (doc_service (Doc [] columns3)) 3 (PDate 736848) (PInt 0) world0
          = (Inr None, ?w)"
    by (rule day_energy_half_sum [where n = 736848 and retries = 3 and pes_id = "PInt 0"
          and w = world0 and w' = ?w and meta = columns3
          and srv = "doc_service (Doc [] columns3)",
          THEN mp, OF nn, THEN conjunct2, THEN conjunct2, THEN mp])
       (rule request_day_2018_6_3)
  show ?thesis
    by (intro conjI n g 1 2 request_day_2018_6_3)
qed


subsection \<open>The peak of a day\<close>

lemma gen_or_key:
  "generation_row x \<Longrightarrow> gen_or (Num minus_1e308) x = Inr (Num (generation_key x))"
  by (auto simp: generation_row_def gen_or_def generation_key_def split: cell.splits)

lemma gens_or_key:
  "\<forall>x\<in>set rows. generation_row x \<Longrightarrow>
     gens_or (Num minus_1e308) rows = Inr (map (\<lambda>x. Num (generation_key x)) rows)"
  by (induction rows) (simp_all add: gen_or_key)

text \<open>
  The loop of \<^verbatim>\<open>max\<close> over numbers: from an item that is the first greatest among the indices
  passed, it ends with the first greatest of all.
\<close>

lemma max_loop_numbers:
  assumes "m < a" and "a \<le> length vs" and "\<forall>j<a. vs ! j \<le> vs ! m" and "\<forall>j<m. vs ! j < vs ! m"
  shows "\<exists>i<length vs. max_loop (map Num vs) m (Num (vs ! m)) [a..<length vs] = Inr i
           \<and> (\<forall>j<length vs. vs ! j \<le> vs ! i) \<and> (\<forall>j<i. vs ! j < vs ! i)"
  using assms
proof (induction "length vs - a" arbitrary: a m)
  case 0
  then have "a = length vs" by simp
  with 0 show ?case by auto
next
  case (Suc d)
  then have a: "a < length vs" by simp
  then have up: "[a..<length vs] = a # [Suc a..<length vs]"
    by (rule upt_conv_Cons)
  have d: "d = length vs - Suc a" using Suc.hyps(2) by simp
  show ?case
  proof (cases "vs ! a > vs ! m")
    case True
    have "\<exists>i<length vs. max_loop (map Num vs) a (Num (vs ! a)) [Suc a..<length vs] = Inr i
           \<and> (\<forall>j<length vs. vs ! j \<le> vs ! i) \<and> (\<forall>j<i. vs ! j < vs ! i)"
    proof (rule Suc.hyps(1) [OF d])
      show "a < Suc a" by simp
      show "Suc a \<le> length vs" using a by simp
      show "\<forall>j<Suc a. vs ! j \<le> vs ! a"
        using Suc.prems(3) True by (auto simp: less_Suc_eq intro: order.trans less_imp_le)
      show "\<forall>j<a. vs ! j < vs ! a"
        using Suc.prems(3) True by (auto intro: le_less_trans)
    qed
    with True a Suc.prems(1) show ?thesis
      by (simp add: up)
  next
    case False
    have "\<exists>i<length vs. max_loop (map Num vs) m (Num (vs ! m)) [Suc a..<length vs] = Inr i
           \<and> (\<forall>j<length vs. vs ! j \<le> vs ! i) \<and> (\<forall>j<i. vs ! j < vs ! i)"
    proof (rule Suc.hyps(1) [OF d])
      show "m < Suc a" using Suc.prems(1) by simp
      show "Suc a \<le> length vs" using a by simp
      show "\<forall>j<Suc a. vs ! j \<le> vs ! m"
        using Suc.prems(3) False by (auto simp: less_Suc_eq)
      show "\<forall>j<m. vs ! j < vs ! m" by (rule Suc.prems(4))
    qed
    with False a Suc.prems(1) show ?thesis
      by (simp add: up)
  qed
qed

lemma index_max_numbers:
  assumes "vs \<noteq> []"
  shows "\<exists>i<length vs. index_max (map Num vs) = Inr i
           \<and> (\<forall>j<length vs. vs ! j \<le> vs ! i) \<and> (\<forall>j<i. vs ! j < vs ! i)"
proof -
  from assms have n: "0 < length vs" by simp
  then have up: "[0..<length vs] = 0 # [Suc 0..<length vs]"
    by (rule upt_conv_Cons)
  have "\<exists>i<length vs. max_loop (map Num vs) 0 (Num (vs ! 0)) [Suc 0..<length vs] = Inr i
           \<and> (\<forall>j<length vs. vs ! j \<le> vs ! i) \<and> (\<forall>j<i. vs ! j < vs ! i)"
    using n by (intro max_loop_numbers) (auto simp: less_Suc_eq Suc_le_eq)
  with n show ?thesis
    by (simp add: index_max_def up)
qed

lemma index_max_rows:
  assumes "rows \<noteq> []"
  shows "\<exists>i<length rows. index_max (map (\<lambda>x. Num (generation_key x)) rows) = Inr i
           \<and> (\<forall>j<length rows. generation_key (rows ! j) \<le> generation_key (rows ! i))
           \<and> (\<forall>j<i. generation_key (rows ! j) < generation_key (rows ! i))"
proof -
  have m: "map (\<lambda>x. Num (generation_key x)) rows = map Num (map generation_key rows)"
    by simp
  from assms have "map generation_key rows \<noteq> []" by simp
  from index_max_numbers [OF this] obtain i where i: "i < length rows"
    "index_max (map Num (map generation_key rows)) = Inr i"
    "\<forall>j<length rows. map generation_key rows ! j \<le> map generation_key rows ! i"
    "\<forall>j<i. map generation_key rows ! j < map generation_key rows ! i"
    by auto
  from i(1) i(3) have "\<forall>j<length rows. generation_key (rows ! j) \<le> generation_key (rows ! i)"
    by simp
  moreover from i(1) i(4) have "\<forall>j<i. generation_key (rows ! j) < generation_key (rows ! i)"
    by simp
  ultimately show ?thesis
    using i(1) i(2) unfolding m by blast
qed

lemma day_peak_world:
  "snd (day_peak srv retries (PDate n) pes_id data_frame ef w)
     = (case day_end (half_past_midnight n) of
          Inl e \<Rightarrow> w
        | Inr end' \<Rightarrow>
            snd (request srv retries pes_id
                   (compile_params ef (Some (half_past_midnight n)) (Some end')) w))"
  by (simp add: day_peak_def combine_date split: sum.splits prod.splits)


lemma return_row_tuple: "return_row response rows i False = Inr (Tuple (rows ! i))"
  by (simp add: return_row_def)

lemma day_peak_rows:
  assumes "day_end (half_past_midnight n) = Inr end'"
    and "request srv retries pes_id
           (compile_params ef (Some (half_past_midnight n)) (Some end')) w
         = (Inr (Doc rows meta), w')"
    and "rows \<noteq> []" and "\<forall>x\<in>set rows. generation_row x"
  shows "\<exists>i<length rows.
           day_peak srv retries (PDate n) pes_id data_frame ef w
             = (return_row (Doc rows meta) rows i data_frame, w')
           \<and> (\<forall>j<length rows. generation_key (rows ! j) \<le> generation_key (rows ! i))
           \<and> (\<forall>j<i. generation_key (rows ! j) < generation_key (rows ! i))"
proof -
  from index_max_rows [OF assms(3)] obtain i where i: "i < length rows"
    "index_max (map (\<lambda>x. Num (generation_key x)) rows) = Inr i"
    "\<forall>j<length rows. generation_key (rows ! j) \<le> generation_key (rows ! i)"
    "\<forall>j<i. generation_key (rows ! j) < generation_key (rows ! i)"
    by blast
  have "day_peak srv retries (PDate n) pes_id data_frame ef w
             = (return_row (Doc rows meta) rows i data_frame, w')"
    using assms(3)
    by (simp add: day_peak_def combine_date assms(1) assms(2) gens_or_key [OF assms(4)] i(2))
  with i(1) i(3) i(4) show ?thesis by blast
qed

lemma minus_1e308_negative: "minus_1e308 < 0"
  by (simp add: minus_1e308_def)

text \<open>When every generation value is null, all keys are equal and the first row is kept.\<close>

lemma first_of_equals:
  assumes "i < length rows" and "\<forall>j<i. generation_key (rows ! j) < generation_key (rows ! i)"
    and "\<forall>x\<in>set rows. x ! 2 = Null"
  shows "i = 0"
proof (rule ccontr)
  assume "i \<noteq> 0"
  then have "0 < i" by simp
  with assms(2) have less: "generation_key (rows ! 0) < generation_key (rows ! i)" by blast
  from \<open>0 < i\<close> assms(1) have "0 < length rows" by (rule less_trans)
  then have "rows ! 0 \<in> set rows" by (rule nth_mem)
  moreover from assms(1) have "rows ! i \<in> set rows" by (rule nth_mem)
  ultimately have "rows ! 0 ! 2 = Null" "rows ! i ! 2 = Null"
    using assms(3) by blast+
  with less show False by (simp add: generation_key_def)
qed

text \<open>A null row is not the greatest when some value is above \<open>-1e308\<close>.\<close>

lemma greatest_not_null:
  assumes "\<forall>j<length rows. generation_key (rows ! j) \<le> generation_key (rows ! i)"
    and "\<exists>x\<in>set rows. minus_1e308 < generation_key x"
  shows "rows ! i ! 2 \<noteq> Null"
proof
  assume null: "rows ! i ! 2 = Null"
  from assms(2) obtain j where j: "j < length rows" "minus_1e308 < generation_key (rows ! j)"
    by (auto simp: in_set_conv_nth)
  with assms(1) have "minus_1e308 < generation_key (rows ! i)" by force
  with null show False by (simp add: generation_key_def)
qed

lemma generation_rows_null:
  "generation_row [Num 0, Str ''a'', Null]" "generation_row [Num 0, Str ''b'', Null]"
  by (simp_all add: generation_row_def)

text \<open>
  Claim C5: for every day and region, \<^verbatim>\<open>day_peak\<close> queries the window from 00:30 on that day
  to 00:00 on the next day and, for a non-empty data array, returns the first row whose
  generation value is greatest, null being below every value; when all rows are null it
  returns the placeholder of three nulls; on the values 2.0, 5.0, null, 5.0 it returns the row
  at index 1.

  When all rows are null, \<^verbatim>\<open>day_peak\<close> returns the first row as the service sent it, with its
  region and timestamp, and not the placeholder.
\<close>

theorem day_peak_all_null_gives_first_row:
  "day_peak (doc_service (Doc [[Num 0, Str ''a'', Null], [Num 0, Str ''b'', Null]] columns3)) 3
     (PDate 736848) (PInt 0) False (PStr []) world0
   = (Inr (Tuple [Num 0, Str ''a'', Null]),
      \<lparr>clock = 1,
         trace = [Get ''https://api0.solar.sheffield.ac.uk/pvlive/v2/pes/0?start=2018-06-03T00:30:00Z&end=2018-06-04T00:00:00Z'']\<rparr>)
   \<and> [Num 0, Str ''a'', Null] \<noteq> null_row"
proof -
  let ?rows = "[[Num 0, Str ''a'', Null], [Num 0, Str ''b'', Null]]"
  let ?w = "\<lparr>clock = 1,
         trace = [Get ''https://api0.solar.sheffield.ac.uk/pvlive/v2/pes/0?start=2018-06-03T00:30:00Z&end=2018-06-04T00:00:00Z'']\<rparr>"
  have e: "day_end (half_past_midnight 736848) = Inr (midnight_after 736848)"
    by (rule day_end_half_past_midnight) (simp_all add: MAXORDINAL_def)
  have "\<exists>i<length ?rows.
           day_peak (doc_service (Doc ?rows columns3)) 3 (PDate 736848) (PInt 0) False (PStr []) world0
             = (return_row (Doc ?rows columns3) ?rows i False, ?w)
           \<and> (\<forall>j<length ?rows. generation_key (?rows ! j) \<le> generation_key (?rows ! i))
           \<and> (\<forall>j<i. generation_key (?rows ! j) < generation_key (?rows ! i))"
    by (rule day_peak_rows [OF e request_day_2018_6_3]) (simp_all add: generation_rows_null)
  then obtain i where i: "i < length ?rows"
    "day_peak (doc_service (Doc ?rows columns3)) 3 (PDate 736848) (PInt 0) False (PStr []) world0
             = (Inr (Tuple (?rows ! i)), ?w)"
    "\<forall>j<i. generation_key (?rows ! j) < generation_key (?rows ! i)"
    by (auto simp: return_row_tuple)
  from i(1) i(3) have "i = 0"
    by (rule first_of_equals) simp
  with i(2) show ?thesis
    by (simp add: null_row_def)
qed

text \<open>
  Claim C5, amended: for every day before 9999-12-31 and every region, all that
  \<^verbatim>\<open>day_peak\<close> does to the world is the query for the window from 00:30 on that day to 00:00
  on the next day; when that query returns a non-empty data array of rows with a number or
  null as generation value, the result is the first row whose generation value is greatest,
  null counting as \<open>-1e308\<close>: so a null row is not returned when some value is above
  \<open>-1e308\<close>, and the first row is returned when all rows are null; when the query returns an
  empty data array, the result is the placeholder of three nulls.
\<close>

theorem day_peak_first_maximal_row:
  "1 \<le> n \<and> n < MAXORDINAL \<longrightarrow>
     snd (day_peak srv retries (PDate n) pes_id data_frame ef w)
       = snd (request srv retries pes_id
                (compile_params ef (Some (half_past_midnight n)) (Some (midnight_after n))) w)
     \<and> (request srv retries pes_id
           (compile_params ef (Some (half_past_midnight n)) (Some (midnight_after n))) w
           = (Inr (Doc rows meta), w')
         \<and> rows \<noteq> [] \<and> (\<forall>x\<in>set rows. generation_row x) \<longrightarrow>
         (\<exists>i<length rows.
            day_peak srv retries (PDate n) pes_id False ef w = (Inr (Tuple (rows ! i)), w')
            \<and> (\<forall>j<length rows. generation_key (rows ! j) \<le> generation_key (rows ! i))
            \<and> (\<forall>j<i. generation_key (rows ! j) < generation_key (rows ! i))
            \<and> ((\<forall>x\<in>set rows. x ! 2 = Null) \<longrightarrow> i = 0)
            \<and> ((\<exists>x\<in>set rows. minus_1e308 < generation_key x) \<longrightarrow> rows ! i ! 2 \<noteq> Null)))
     \<and> (request srv retries pes_id
           (compile_params ef (Some (half_past_midnight n)) (Some (midnight_after n))) w
           = (Inr (Doc [] meta), w') \<longrightarrow>
         day_peak srv retries (PDate n) pes_id data_frame ef w = (Inr (Tuple null_row), w'))"
proof (intro impI conjI)
  assume n: "1 \<le> n \<and> n < MAXORDINAL"
  then have e: "day_end (half_past_midnight n) = Inr (midnight_after n)"
    by (intro day_end_half_past_midnight) simp_all
  show "snd (day_peak srv retries (PDate n) pes_id data_frame ef w)
       = snd (request srv retries pes_id
                (compile_params ef (Some (half_past_midnight n)) (Some (midnight_after n))) w)"
    by (simp add: day_peak_world e)
  {
    assume a: "request srv retries pes_id
           (compile_params ef (Some (half_past_midnight n)) (Some (midnight_after n))) w
           = (Inr (Doc rows meta), w')
         \<and> rows \<noteq> [] \<and> (\<forall>x\<in>set rows. generation_row x)"
    from a have r: "request srv retries pes_id
           (compile_params ef (Some (half_past_midnight n)) (Some (midnight_after n))) w
           = (Inr (Doc rows meta), w')" and ne: "rows \<noteq> []"
      and g: "\<forall>x\<in>set rows. generation_row x" by blast+
    from day_peak_rows [OF e r ne g, of False] obtain i where i: "i < length rows"
      "day_peak srv retries (PDate n) pes_id False ef w = (Inr (Tuple (rows ! i)), w')"
      "\<forall>j<length rows. generation_key (rows ! j) \<le> generation_key (rows ! i)"
      "\<forall>j<i. generation_key (rows ! j) < generation_key (rows ! i)"
      by (auto simp: return_row_tuple)
    have first: "i = 0" if "\<forall>x\<in>set rows. x ! 2 = Null"
      using i(1) i(4) that by (rule first_of_equals)
    have present: "rows ! i ! 2 \<noteq> Null" if "\<exists>x\<in>set rows. minus_1e308 < generation_key x"
      using i(3) that by (rule greatest_not_null)
    from i first present
    show "\<exists>i<length rows.
            day_peak srv retries (PDate n) pes_id False ef w = (Inr (Tuple (rows ! i)), w')
            \<and> (\<forall>j<length rows. generation_key (rows ! j) \<le> generation_key (rows ! i))
            \<and> (\<forall>j<i. generation_key (rows ! j) < generation_key (rows ! i))
            \<and> ((\<forall>x\<in>set rows. x ! 2 = Null) \<longrightarrow> i = 0)
            \<and> ((\<exists>x\<in>set rows. minus_1e308 < generation_key x) \<longrightarrow> rows ! i ! 2 \<noteq> Null)"
      by blast
  }
  {
    assume "request srv retries pes_id
           (compile_params ef (Some (half_past_midnight n)) (Some (midnight_after n))) w
           = (Inr (Doc [] meta), w')"
    then show "day_peak srv retries (PDate n) pes_id data_frame ef w = (Inr (Tuple null_row), w')"
      by (simp add: day_peak_def combine_date e)
  }
qed

theorem day_peak_first_maximal_row_witness:
  "(1::int) \<le> 736848 \<and> 736848 < MAXORDINAL
   \<and> request (doc_service (Doc [[Num 0, Str ''a'', Num 2], [Num 0, Str ''b'', Num 5],
                                 [Num 0, Str ''c'', Null], [Num 0, Str ''d'', Num 5]] columns3))
       3 (PInt 0)
       (compile_params (PStr []) (Some (half_past_midnight 736848)) (Some (midnight_after 736848)))
       world0
     = (Inr (Doc [[Num 0, Str ''a'', Num 2], [Num 0, Str ''b'', Num 5],
                  [Num 0, Str ''c'', Null], [Num 0, Str ''d'', Num 5]] columns3),
        \<lparr>clock = 1,
           trace = [Get ''https://api0.solar.sheffield.ac.uk/pvlive/v2/pes/0?start=2018-06-03T00:30:00Z&end=2018-06-04T00:00:00Z'']\<rparr>)
   \<and> generation_row [Num 0, Str ''a'', Num 2] \<and> generation_row [Num 0, Str ''b'', Num 5]
   \<and> generation_row [Num 0, Str ''c'', Null] \<and> generation_row [Num 0, Str ''d'', Num 5]
   \<and> day_peak (doc_service (Doc [[Num 0, Str ''a'', Num 2], [Num 0, Str ''b'', Num 5],
                                  [Num 0, Str ''c'', Null], [Num 0, Str ''d'', Num 5]] columns3))
       3 (PDate 736848) (PInt 0) False (PStr []) world0
     = (Inr (Tuple [Num 0, Str ''b'', Num 5]),
        \<lparr>clock = 1,
           trace = [Get ''https://api0.solar.sheffield.ac.uk/pvlive/v2/pes/0?start=2018-06-03T00:30:00Z&end=2018-06-04T00:00:00Z'']\<rparr>)"
proof -
  let ?rows = "[[Num 0, Str ''a'', Num 2], [Num 0, Str ''b'', Num 5],
                [Num 0, Str ''c'', Null], [Num 0, Str ''d'', Num 5]]"
  let ?w = "\<lparr>clock = 1,
           trace = [Get ''https://api0.solar.sheffield.ac.uk/pvlive/v2/pes/0?start=2018-06-03T00:30:00Z&end=2018-06-04T00:00:00Z'']\<rparr>"
  have n: "(1::int) \<le> 736848" "736848 < MAXORDINAL"
    by (simp_all add: MAXORDINAL_def)
  then have nn: "(1::int) \<le> 736848 \<and> 736848 < MAXORDINAL"
    by simp
  have g: "generation_row [Num 0, Str ''a'', Num 2]" "generation_row [Num 0, Str ''b'', Num 5]"
    "generation_row [Num 0, Str ''c'', Null]" "generation_row [Num 0, Str ''d'', Num 5]"
    by (simp_all add: generation_row_def)
  note r = request_day_2018_6_3 [of "Doc ?rows columns3"]
  have k: "generation_key (?rows ! 0) = 2" "generation_key (?rows ! 1) = 5"
    "generation_key (?rows ! 2) = minus_1e308" "generation_key (?rows ! 3) = 5"
    by (simp_all add: generation_key_def)
  have "\<exists>i<length ?rows.
            day_peak (doc_service (Doc ?rows columns3)) 3 (PDate 736848) (PInt 0) False (PStr [])
              world0 = (Inr (Tuple (?rows ! i)), ?w)
            \<and> (\<forall>j<length ?rows. generation_key (?rows ! j) \<le> generation_key (?rows ! i))
            \<and> (\<forall>j<i. generation_key (?rows ! j) < generation_key (?rows ! i))
            \<and> ((\<forall>x\<in>set ?rows. x ! 2 = Null) \<longrightarrow> i = 0)
            \<and> ((\<exists>x\<in>set ?rows. minus_1e308 < generation_key x) \<longrightarrow> ?rows ! i ! 2 \<noteq> Null)"
    by (rule day_peak_first_maximal_row [where n = 736848 and retries = 3
          and srv = "doc_service (Doc ?rows columns3)" and rows = ?rows and meta = columns3
          and w = world0 and w' = ?w and ef = "PStr []" and pes_id = "PInt 0",
          THEN mp, OF nn, THEN conjunct2, THEN conjunct1, THEN mp])
       (simp add: r g)
  then obtain i where i0: "i < length ?rows"
    and i2: "day_peak (doc_service (Doc ?rows columns3)) 3 (PDate 736848) (PInt 0) False (PStr [])
              world0 = (Inr (Tuple (?rows ! i)), ?w)"
    and i3: "\<forall>j<length ?rows. generation_key (?rows ! j) \<le> generation_key (?rows ! i)"
    and i4: "\<forall>j<i. generation_key (?rows ! j) < generation_key (?rows ! i)"
    by blast
  from i0 have i1: "i < 4"
    by simp
  have "(1::nat) < length ?rows"
    by simp
  with i3 have ge: "generation_key (?rows ! 1) \<le> generation_key (?rows ! i)"
    by blast
  from i1 consider "i = 0" | "i = 1" | "i = 2" | "i = 3"
    by linarith
  then have "i = 1"
  proof cases
    case 1
    with ge k show ?thesis by simp
  next
    case 2
    then show ?thesis .
  next
    case 3
    with ge k minus_1e308_negative show ?thesis by simp
  next
    case 4
    then have "(1::nat) < i" by simp
    with i4 have "generation_key (?rows ! 1) < generation_key (?rows ! i)" by blast
    with 4 k show ?thesis by simp
  qed
  with i2 have "day_peak (doc_service (Doc ?rows columns3)) 3 (PDate 736848) (PInt 0) False
      (PStr []) world0 = (Inr (Tuple [Num 0, Str ''b'', Num 5]), ?w)"
    by simp
  then show ?thesis
    by (intro conjI n g r)
qed

end
